theory Spec2Isabelle
  imports Complex_Main "HOL-Library.Char_ord" "HOL-Library.List_Lexorder"
    "HOL-Library.Product_Lexorder"
begin

section \<open>Analytics aggregation: data model\<close>

text \<open>
  The development follows \<^verbatim>\<open>backend/src/repositories/analytics.py\<close> and
  \<^verbatim>\<open>backend/src/routes/analytics/routes.py\<close>. A table is the list of its rows; a
  query is a function of that list. Numbers that Python holds as \<^verbatim>\<open>Decimal\<close> or
  \<^verbatim>\<open>float\<close> are exact rationals here: rounding of the binary and decimal
  formats is outside the model, every guard, comparison and formula is inside it. Where a
  float product becomes a list index, the double-precision computation is modelled as well
  and compared with the exact one.
  A \<^verbatim>\<open>datetime\<close> is its number of microseconds from \<^verbatim>\<open>datetime.min\<close>, a
  \<^verbatim>\<open>timedelta\<close> a number of microseconds; arithmetic that leaves the range of
  either raises, as in Python.
\<close>

datatype ExecutionStatus =
  Status_pending | Status_running | Status_success | Status_failure
  | Status_timeout | Status_cancelled

datatype BudgetScope = Scope_user | Scope_agent | Scope_flow | Scope_global

datatype error =
  ZeroDivisionError | IndexError | TypeError | OverflowError | ArgumentError | DataError

type_synonym datetime = int
type_synonym timedelta = int

record AgentExecution =
  exec_id :: string
  request_id :: string
  session_id :: string
  agent_id :: "string option"
  agent_type :: "string option"
  agent_name :: "string option"
  user_id :: "string option"
  model_config_id :: "string option"
  model_name :: "string option"
  started_at :: datetime
  completed_at :: "datetime option"
  status :: ExecutionStatus
  error_message :: "string option"
  error_type :: "string option"
  input_tokens :: int
  output_tokens :: int
  total_tokens :: int
  execution_time_ms :: int
  llm_time_ms :: "int option"
  cost_usd :: rat
  parent_execution_id :: "string option"
  query_preview :: "string option"
  created_at :: datetime
  updated_at :: datetime

record BudgetAlert =
  alert_id :: string
  alert_user_id :: string
  scope :: BudgetScope
  scope_id :: "string option"
  threshold_usd :: rat
  period_days :: int
  alert_at_percentage :: int
  is_active :: bool

subsection \<open>Time\<close>

definition timedelta_days :: "int \<Rightarrow> timedelta" where
  "timedelta_days d = d * 86400000000"

definition timedelta_hours :: "int \<Rightarrow> timedelta" where
  "timedelta_hours h = h * 3600000000"

text \<open>The \<^verbatim>\<open>.days\<close> attribute of a normalised timedelta: whole days, rounded down.\<close>

definition days :: "timedelta \<Rightarrow> int" where
  "days td = td div 86400000000"

text \<open>
  The range of \<^verbatim>\<open>datetime\<close>: from 0001-01-01 00:00:00 to 9999-12-31 23:59:59.999999,
  3652059 days. \<^verbatim>\<open>datetime - timedelta\<close> raises \<^verbatim>\<open>OverflowError\<close> outside it;
  \<^verbatim>\<open>timedelta(days=d)\<close> raises it beyond 999999999 days. The subtractions whose
  operands come from a request or from a row of a table are checked below; the clock alone,
  less a constant of at most 90 days, is inside the range.
\<close>

definition datetime_max :: datetime where
  "datetime_max = 315537897599999999"

definition valid_datetime :: "datetime \<Rightarrow> bool" where
  "valid_datetime t = (0 \<le> t \<and> t \<le> datetime_max)"

definition datetime_sub :: "datetime \<Rightarrow> timedelta \<Rightarrow> error + datetime" where
  "datetime_sub d delta =
     (if valid_datetime (d - delta) then Inr (d - delta) else Inl OverflowError)"

definition timedelta_of_days :: "int \<Rightarrow> error + timedelta" where
  "timedelta_of_days d =
     (if - 999999999 \<le> d \<and> d \<le> 999999999 then Inr (timedelta_days d)
      else Inl OverflowError)"

text \<open>
  \<^verbatim>\<open>if not end_date: end_date = datetime.utcnow()\<close> and
  \<^verbatim>\<open>if not start_date: start_date = end_date - delta\<close>; a datetime is never false.
  \<open>window_start\<close> is the start after the default, and the default is in range when
  the subtraction gives a \<^verbatim>\<open>datetime\<close>.
\<close>

definition default_end :: "datetime \<Rightarrow> datetime option \<Rightarrow> datetime" where
  "default_end now end_arg = (case end_arg of None \<Rightarrow> now | Some d \<Rightarrow> d)"

definition default_in_range ::
  "timedelta \<Rightarrow> datetime \<Rightarrow> datetime option \<Rightarrow> datetime option \<Rightarrow> bool" where
  "default_in_range delta now start_arg end_arg =
     (case start_arg of
        None \<Rightarrow> valid_datetime (default_end now end_arg - delta)
      | Some d \<Rightarrow> True)"

definition window_start ::
  "timedelta \<Rightarrow> datetime \<Rightarrow> datetime option \<Rightarrow> datetime option \<Rightarrow> datetime" where
  "window_start delta now start_arg end_arg =
     (case start_arg of None \<Rightarrow> default_end now end_arg - delta | Some d \<Rightarrow> d)"

definition default_start ::
  "timedelta \<Rightarrow> datetime \<Rightarrow> datetime option \<Rightarrow> error + datetime" where
  "default_start delta end_date start_arg =
     (case start_arg of None \<Rightarrow> datetime_sub end_date delta | Some d \<Rightarrow> Inr d)"

subsection \<open>Python values and operators\<close>

text \<open>Truth value of an \<^verbatim>\<open>Optional[str]\<close>: \<^verbatim>\<open>None\<close> and the empty string are false.\<close>

definition truthy :: "string option \<Rightarrow> bool" where
  "truthy s = (case s of None \<Rightarrow> False | Some v \<Rightarrow> v \<noteq> [])"

text \<open>\<^verbatim>\<open>x or 0\<close> on the result of an SQL aggregate.\<close>

definition or0 :: "'a::zero option \<Rightarrow> 'a" where
  "or0 x = (case x of None \<Rightarrow> 0 | Some v \<Rightarrow> v)"

definition py_truediv :: "rat \<Rightarrow> rat \<Rightarrow> error + rat" where
  "py_truediv a b = (if b = 0 then Inl ZeroDivisionError else Inr (a / b))"

definition py_floordiv :: "int \<Rightarrow> int \<Rightarrow> error + int" where
  "py_floordiv a b = (if b = 0 then Inl ZeroDivisionError else Inr (a div b))"

text \<open>The subscript \<^verbatim>\<open>xs[i]\<close>: from the end when \<open>i\<close> is negative, raising outside the list.\<close>

definition py_index :: "'a list \<Rightarrow> int \<Rightarrow> error + 'a" where
  "py_index xs i =
     (if 0 \<le> i \<and> i < int (length xs) then Inr (xs ! nat i)
      else if i < 0 \<and> - int (length xs) \<le> i then Inr (xs ! nat (int (length xs) + i))
      else Inl IndexError)"

text \<open>
  \<^verbatim>\<open>int(n * c)\<close> for a length \<open>n\<close> and a constant \<open>c\<close>: the exact product,
  truncated.
\<close>

definition int_mul :: "nat \<Rightarrow> rat \<Rightarrow> int" where
  "int_mul n c = \<lfloor>of_nat n * c\<rfloor>"

text \<open>Sequencing of computations that may raise.\<close>

definition bind_res :: "error + 'a \<Rightarrow> ('a \<Rightarrow> error + 'b) \<Rightarrow> error + 'b" where
  "bind_res m f = (case m of Inl e \<Rightarrow> Inl e | Inr v \<Rightarrow> f v)"

fun map_res :: "('a \<Rightarrow> error + 'b) \<Rightarrow> 'a list \<Rightarrow> error + 'b list" where
  "map_res f [] = Inr []"
| "map_res f (x # xs) =
     bind_res (f x) (\<lambda>y. bind_res (map_res f xs) (\<lambda>ys. Inr (y # ys)))"

subsection \<open>The product in double precision\<close>

text \<open>
  Python computes \<^verbatim>\<open>len(times) * 0.95\<close> in IEEE double precision. A length below
  \<open>2 ^ 53\<close> is a double as it is; the constant is the double \<open>m / 2 ^ 53\<close> nearest to it
  (\<open>2 ^ 52 \<le> m < 2 ^ 53\<close>); the product \<open>n * m / 2 ^ 53\<close> is rounded to 53 significant
  bits, ties to even, and \<^verbatim>\<open>int\<close> truncates it. \<open>float_index\<close> is that computation
  on the numerators; it is shown below to give the index of the exact product for every
  length below \<open>2 ^ 45\<close>.
\<close>

fun bit_length :: "nat \<Rightarrow> nat" where
  "bit_length n = (if n = 0 then 0 else Suc (bit_length (n div 2)))"

definition round_to_multiple :: "nat \<Rightarrow> nat \<Rightarrow> nat" where
  "round_to_multiple N s =
     (let q = N div 2 ^ s; r = N mod 2 ^ s
      in if 2 ^ s < 2 * r \<or> (2 * r = 2 ^ s \<and> odd q) then (q + 1) * 2 ^ s else q * 2 ^ s)"

definition round_53 :: "nat \<Rightarrow> nat" where
  "round_53 N = round_to_multiple N (bit_length N - 53)"

definition float_index :: "nat \<Rightarrow> nat \<Rightarrow> nat" where
  "float_index n m = round_53 (n * m) div 2 ^ 53"

definition double_0_95 :: nat where
  "double_0_95 = 8556839292003942"

definition double_0_99 :: nat where
  "double_0_99 = 8917127262193582"

declare bit_length.simps [simp del]

subsection \<open>SQL aggregates\<close>

text \<open>\<^verbatim>\<open>SUM\<close> and \<^verbatim>\<open>AVG\<close> over no rows are \<^verbatim>\<open>NULL\<close>.\<close>

definition sql_sum :: "'a::monoid_add list \<Rightarrow> 'a option" where
  "sql_sum xs = (if xs = [] then None else Some (sum_list xs))"

definition sql_avg :: "int list \<Rightarrow> rat option" where
  "sql_avg xs =
     (if xs = [] then None else Some (of_int (sum_list xs) / of_nat (length xs)))"

definition count_if :: "bool \<Rightarrow> int" where
  "count_if b = (if b then 1 else 0)"

text \<open>\<^verbatim>\<open>a / b * 100 if b > 0 else 0\<close>, the shape of every rate and share below.\<close>

definition guarded_percentage :: "rat \<Rightarrow> rat \<Rightarrow> error + rat" where
  "guarded_percentage a b =
     (if b > 0 then bind_res (py_truediv a b) (\<lambda>q. Inr (q * 100)) else Inr 0)"

text \<open>\<^verbatim>\<open>name or "Unknown"\<close>.\<close>

definition or_unknown :: "string option \<Rightarrow> string" where
  "or_unknown s = (case s of None \<Rightarrow> ''Unknown'' | Some v \<Rightarrow> if v = [] then ''Unknown'' else v)"

section \<open>AgentExecutionRepository\<close>

subsection \<open>get\_overview\<close>

record MetricsRow =
  m_total :: int
  m_successful :: "int option"
  m_failed :: "int option"
  m_avg_time :: "rat option"
  m_input_tokens :: "int option"
  m_output_tokens :: "int option"
  m_total_tokens :: "int option"
  m_total_cost :: "rat option"

record AgentGroupRow =
  g_agent_name :: "string option"
  g_agent_id :: "string option"
  g_agent_type :: "string option"
  g_count :: int
  g_success_count :: "int option"
  g_failure_count :: "int option"
  g_avg_time :: "rat option"
  g_total_tokens :: "int option"
  g_total_cost :: "rat option"

record ModelGroupRow =
  mg_model_name :: "string option"
  mg_cost :: "rat option"
  mg_count :: int
  mg_tokens :: "int option"

record TopAgentDTO =
  ta_agent_name :: string
  ta_agent_id :: "string option"
  ta_agent_type :: "string option"
  ta_execution_count :: int
  ta_success_count :: int
  ta_failure_count :: int
  ta_success_rate :: rat
  ta_avg_execution_time_ms :: rat
  ta_total_tokens :: int
  ta_total_cost_usd :: rat

record CostBreakdownDTO =
  cb_name :: string
  cb_category :: string
  cb_total_cost_usd :: rat
  cb_percentage :: rat
  cb_execution_count :: int
  cb_total_tokens :: int

record AnalyticsOverviewDTO =
  total_executions :: int
  successful_executions :: int
  failed_executions :: int
  success_rate :: rat
  avg_execution_time_ms :: rat
  p50_execution_time_ms :: rat
  p95_execution_time_ms :: rat
  p99_execution_time_ms :: rat
  total_input_tokens :: int
  total_output_tokens :: int
  ov_total_tokens :: int
  total_cost_usd :: rat
  estimated_monthly_cost_usd :: rat
  executions_change_percent :: "rat option"
  execution_time_change_percent :: "rat option"
  success_rate_change_percent :: "rat option"
  cost_change_percent :: "rat option"
  active_agents_count :: int
  top_agents :: "TopAgentDTO list"
  cost_by_model :: "CostBreakdownDTO list"

text \<open>The base filter (lines 179--184): both bounds of the window are inclusive.\<close>

definition overview_filters ::
  "string option \<Rightarrow> datetime \<Rightarrow> datetime \<Rightarrow> AgentExecution \<Rightarrow> bool" where
  "overview_filters uid start_date end_date e =
     (started_at e \<ge> start_date \<and> started_at e \<le> end_date
      \<and> (if truthy uid then user_id e = uid else True))"

definition metrics_query :: "AgentExecution list \<Rightarrow> MetricsRow" where
  "metrics_query rows =
     \<lparr> m_total = int (length rows),
       m_successful = sql_sum (map (\<lambda>e. count_if (status e = Status_success)) rows),
       m_failed = sql_sum (map (\<lambda>e. count_if (status e = Status_failure)) rows),
       m_avg_time = sql_avg (map execution_time_ms rows),
       m_input_tokens = sql_sum (map input_tokens rows),
       m_output_tokens = sql_sum (map output_tokens rows),
       m_total_tokens = sql_sum (map total_tokens rows),
       m_total_cost = sql_sum (map cost_usd rows) \<rparr>"

text \<open>The time query (lines 215--219): positive execution times, ascending.\<close>

definition time_query :: "AgentExecution list \<Rightarrow> int list" where
  "time_query rows = sort (map execution_time_ms (filter (\<lambda>e. execution_time_ms e > 0) rows))"

text \<open>Rows of a table grouped by a key: each distinct key with its rows.\<close>

definition group_by :: "('a \<Rightarrow> 'k) \<Rightarrow> 'a list \<Rightarrow> ('k \<times> 'a list) list" where
  "group_by key rows =
     map (\<lambda>k. (k, filter (\<lambda>e. key e = k) rows)) (remdups (map key rows))"

definition agent_key :: "AgentExecution \<Rightarrow> string option \<times> string option \<times> string option" where
  "agent_key e = (agent_name e, agent_id e, agent_type e)"

definition agent_group ::
  "(string option \<times> string option \<times> string option) \<times> AgentExecution list \<Rightarrow> AgentGroupRow" where
  "agent_group kg =
     (case kg of ((name, ident, type), grp) \<Rightarrow>
     \<lparr> g_agent_name = name,
       g_agent_id = ident,
       g_agent_type = type,
       g_count = int (length grp),
       g_success_count = sql_sum (map (\<lambda>e. count_if (status e = Status_success)) grp),
       g_failure_count = sql_sum (map (\<lambda>e. count_if (status e = Status_failure)) grp),
       g_avg_time = sql_avg (map execution_time_ms grp),
       g_total_tokens = sql_sum (map total_tokens grp),
       g_total_cost = sql_sum (map cost_usd grp) \<rparr>)"

text \<open>The top-agents query (lines 226--246): named rows, grouped, most frequent first, ten rows.\<close>

definition top_agents_query :: "AgentExecution list \<Rightarrow> AgentGroupRow list" where
  "top_agents_query rows =
     take 10 (sort_key (\<lambda>g. - g_count g)
       (map agent_group (group_by agent_key (filter (\<lambda>e. agent_name e \<noteq> None) rows))))"

definition top_agent_dto :: "AgentGroupRow \<Rightarrow> error + TopAgentDTO" where
  "top_agent_dto row =
     bind_res (guarded_percentage (of_int (or0 (g_success_count row))) (of_int (g_count row)))
       (\<lambda>rate. Inr
         \<lparr> ta_agent_name = or_unknown (g_agent_name row),
           ta_agent_id = (if truthy (g_agent_id row) then g_agent_id row else None),
           ta_agent_type = g_agent_type row,
           ta_execution_count = g_count row,
           ta_success_count = or0 (g_success_count row),
           ta_failure_count = or0 (g_failure_count row),
           ta_success_rate = rate,
           ta_avg_execution_time_ms = or0 (g_avg_time row),
           ta_total_tokens = or0 (g_total_tokens row),
           ta_total_cost_usd = or0 (g_total_cost row) \<rparr>)"

definition model_group :: "string option \<times> AgentExecution list \<Rightarrow> ModelGroupRow" where
  "model_group kg =
     (case kg of (name, grp) \<Rightarrow>
     \<lparr> mg_model_name = name,
       mg_cost = sql_sum (map cost_usd grp),
       mg_count = int (length grp),
       mg_tokens = sql_sum (map total_tokens grp) \<rparr>)"

text \<open>The cost-by-model query (lines 265--275): rows with a model, grouped, dearest first.\<close>

definition model_cost_query :: "AgentExecution list \<Rightarrow> ModelGroupRow list" where
  "model_cost_query rows =
     sort_key (\<lambda>g. - or0 (mg_cost g))
       (map model_group (group_by model_name (filter (\<lambda>e. model_name e \<noteq> None) rows)))"

text \<open>
  \<^verbatim>\<open>float(row.cost / total_cost * 100) if total_cost > 0 else 0\<close>: dividing a
  \<^verbatim>\<open>None\<close> cost would raise \<^verbatim>\<open>TypeError\<close>.
\<close>

definition cost_percentage :: "rat \<Rightarrow> rat option \<Rightarrow> error + rat" where
  "cost_percentage total_cost cost =
     (if total_cost > 0
      then (case cost of
              None \<Rightarrow> Inl TypeError
            | Some c \<Rightarrow> bind_res (py_truediv c total_cost) (\<lambda>q. Inr (q * 100)))
      else Inr 0)"

definition cost_breakdown_dto :: "rat \<Rightarrow> ModelGroupRow \<Rightarrow> error + CostBreakdownDTO" where
  "cost_breakdown_dto total_cost row =
     bind_res (cost_percentage total_cost (mg_cost row))
       (\<lambda>pct. Inr
         \<lparr> cb_name = or_unknown (mg_model_name row),
           cb_category = ''model'',
           cb_total_cost_usd = or0 (mg_cost row),
           cb_percentage = pct,
           cb_execution_count = mg_count row,
           cb_total_tokens = or0 (mg_tokens row) \<rparr>)"

record PrevMetricsRow =
  pm_total :: int
  pm_successful :: "int option"
  pm_avg_time :: "rat option"
  pm_total_cost :: "rat option"

definition prev_query :: "AgentExecution list \<Rightarrow> PrevMetricsRow" where
  "prev_query rows =
     \<lparr> pm_total = int (length rows),
       pm_successful = sql_sum (map (\<lambda>e. count_if (status e = Status_success)) rows),
       pm_avg_time = sql_avg (map execution_time_ms rows),
       pm_total_cost = sql_sum (map cost_usd rows) \<rparr>"

text \<open>The filter of the previous period (lines 295--300): the upper bound is exclusive.\<close>

definition prev_filters ::
  "string option \<Rightarrow> datetime \<Rightarrow> datetime \<Rightarrow> AgentExecution \<Rightarrow> bool" where
  "prev_filters uid prev_start prev_end e =
     (started_at e \<ge> prev_start \<and> started_at e < prev_end
      \<and> (if truthy uid then user_id e = uid else True))"

definition calc_change :: "rat \<Rightarrow> rat \<Rightarrow> error + rat option" where
  "calc_change current previous =
     (if previous = 0 then Inr None
      else bind_res (py_truediv (current - previous) previous) (\<lambda>q. Inr (Some (q * 100))))"

definition active_agents_query :: "AgentExecution list \<Rightarrow> int" where
  "active_agents_query rows =
     int (length (remdups (map agent_id (filter (\<lambda>e. agent_id e \<noteq> None) rows))))"

text \<open>
  The window of an overview request after the defaults, the rows it aggregates and the
  rows of the period before it, named for the statements below; \<open>get_overview\<close> computes
  the same values. The request is in range when the two subtractions of
  \<open>get_overview\<close> stay inside the range of \<^verbatim>\<open>datetime\<close>: the default start
  \<^verbatim>\<open>end_date - timedelta(hours=24)\<close> and the start of the previous period
  \<^verbatim>\<open>start_date - period_length\<close>.
\<close>

definition overview_end :: "datetime \<Rightarrow> datetime option \<Rightarrow> datetime" where
  "overview_end now end_arg = default_end now end_arg"

definition overview_start :: "datetime \<Rightarrow> datetime option \<Rightarrow> datetime option \<Rightarrow> datetime" where
  "overview_start now start_arg end_arg =
     window_start (timedelta_hours 24) now start_arg end_arg"

definition overview_in_range :: "datetime \<Rightarrow> datetime option \<Rightarrow> datetime option \<Rightarrow> bool" where
  "overview_in_range now start_arg end_arg =
     (default_in_range (timedelta_hours 24) now start_arg end_arg
      \<and> valid_datetime (overview_start now start_arg end_arg
            - (overview_end now end_arg - overview_start now start_arg end_arg)))"

definition overview_rows ::
  "AgentExecution list \<Rightarrow> datetime \<Rightarrow> string option \<Rightarrow> datetime option \<Rightarrow> datetime option
   \<Rightarrow> AgentExecution list" where
  "overview_rows db now uid start_arg end_arg =
     filter (overview_filters uid (overview_start now start_arg end_arg)
               (overview_end now end_arg)) db"

definition previous_rows ::
  "AgentExecution list \<Rightarrow> datetime \<Rightarrow> string option \<Rightarrow> datetime option \<Rightarrow> datetime option
   \<Rightarrow> AgentExecution list" where
  "previous_rows db now uid start_arg end_arg =
     (let start_date = overview_start now start_arg end_arg;
          period_length = overview_end now end_arg - start_date
      in filter (prev_filters uid (start_date - period_length) start_date) db)"

text \<open>
  \<^verbatim>\<open>times[i] if times else 0\<close>, the index \<open>i\<close> computed only for a non-empty list.
\<close>

definition time_at :: "int list \<Rightarrow> error + int \<Rightarrow> error + int" where
  "time_at time_list i = (if time_list \<noteq> [] then bind_res i (py_index time_list) else Inr 0)"

definition get_overview ::
  "AgentExecution list \<Rightarrow> datetime \<Rightarrow> string option \<Rightarrow> datetime option \<Rightarrow> datetime option
   \<Rightarrow> error + AnalyticsOverviewDTO" where
  "get_overview db now uid start_arg end_arg =
     (let end_date = default_end now end_arg
      in
      bind_res (default_start (timedelta_hours 24) end_date start_arg) (\<lambda>start_date.
      let rows = filter (overview_filters uid start_date end_date) db;
          metrics = metrics_query rows;
          total = m_total metrics;
          successful = or0 (m_successful metrics);
          failed = or0 (m_failed metrics);
          time_list = time_query rows;
          total_cost = or0 (m_total_cost metrics);
          period_length = end_date - start_date
      in
      bind_res (guarded_percentage (of_int successful) (of_int total)) (\<lambda>rate.
      bind_res (time_at time_list (py_floordiv (int (length time_list)) 2)) (\<lambda>p50.
      bind_res (time_at time_list (Inr (int_mul (length time_list) (95 / 100)))) (\<lambda>p95.
      bind_res (time_at time_list (Inr (int_mul (length time_list) (99 / 100)))) (\<lambda>p99.
      bind_res (map_res top_agent_dto (top_agents_query rows)) (\<lambda>agents.
      bind_res (map_res (cost_breakdown_dto total_cost) (model_cost_query rows)) (\<lambda>by_model.
      bind_res (datetime_sub start_date period_length) (\<lambda>prev_start.
      let prev_end = start_date;
          prev_metrics = prev_query (filter (prev_filters uid prev_start prev_end) db);
          prev_total = pm_total prev_metrics;
          prev_successful = or0 (pm_successful prev_metrics);
          prev_avg_time = or0 (pm_avg_time prev_metrics);
          prev_cost = or0 (pm_total_cost prev_metrics);
          active_agents = active_agents_query rows
      in
      bind_res (guarded_percentage (of_int prev_successful) (of_int prev_total)) (\<lambda>prev_rate.
      bind_res (if days period_length = 1 then Inr (total_cost * 30)
                else py_truediv (total_cost * 30) (of_int (max (days period_length) 1)))
        (\<lambda>monthly.
      bind_res (calc_change (of_int total) (of_int prev_total)) (\<lambda>executions_change.
      bind_res (calc_change (or0 (m_avg_time metrics)) prev_avg_time) (\<lambda>time_change.
      bind_res (calc_change rate prev_rate) (\<lambda>rate_change.
      bind_res (calc_change total_cost prev_cost) (\<lambda>cost_change.
      Inr \<lparr> total_executions = total,
            successful_executions = successful,
            failed_executions = failed,
            success_rate = rate,
            avg_execution_time_ms = or0 (m_avg_time metrics),
            p50_execution_time_ms = of_int p50,
            p95_execution_time_ms = of_int p95,
            p99_execution_time_ms = of_int p99,
            total_input_tokens = or0 (m_input_tokens metrics),
            total_output_tokens = or0 (m_output_tokens metrics),
            ov_total_tokens = or0 (m_total_tokens metrics),
            total_cost_usd = total_cost,
            estimated_monthly_cost_usd = monthly,
            executions_change_percent = executions_change,
            execution_time_change_percent = time_change,
            success_rate_change_percent = rate_change,
            cost_change_percent = cost_change,
            active_agents_count = active_agents,
            top_agents = agents,
            cost_by_model = by_model \<rparr>)))))))))))))))"

subsection \<open>list\_paginated\<close>

record AgentExecutionSummaryDTO =
  s_id :: string
  s_request_id :: string
  s_session_id :: string
  s_agent_name :: "string option"
  s_agent_type :: "string option"
  s_model_name :: "string option"
  s_status :: ExecutionStatus
  s_execution_time_ms :: int
  s_total_tokens :: int
  s_cost_usd :: rat
  s_started_at :: datetime
  s_completed_at :: "datetime option"
  s_query_preview :: "string option"

record PaginatedExecutionsDTO =
  items :: "AgentExecutionSummaryDTO list"
  total :: int
  page :: int
  page_size :: int
  total_pages :: int

definition summary_dto :: "AgentExecution \<Rightarrow> AgentExecutionSummaryDTO" where
  "summary_dto item =
     \<lparr> s_id = exec_id item,
       s_request_id = request_id item,
       s_session_id = session_id item,
       s_agent_name = agent_name item,
       s_agent_type = agent_type item,
       s_model_name = model_name item,
       s_status = status item,
       s_execution_time_ms = execution_time_ms item,
       s_total_tokens = total_tokens item,
       s_cost_usd = cost_usd item,
       s_started_at = started_at item,
       s_completed_at = completed_at item,
       s_query_preview = query_preview item \<rparr>"

text \<open>The filters of lines 97--111; an argument that is false in Python adds none.\<close>

definition list_filters ::
  "string option \<Rightarrow> string option \<Rightarrow> string option \<Rightarrow> string option
   \<Rightarrow> ExecutionStatus option \<Rightarrow> datetime option \<Rightarrow> datetime option
   \<Rightarrow> AgentExecution \<Rightarrow> bool" where
  "list_filters uid aid atype mname st start_date end_date e =
     ((if truthy uid then user_id e = uid else True)
      \<and> (if truthy aid then agent_id e = aid else True)
      \<and> (if truthy atype then agent_type e = atype else True)
      \<and> (if truthy mname then model_name e = mname else True)
      \<and> (case st of None \<Rightarrow> True | Some v \<Rightarrow> status e = v)
      \<and> (case start_date of None \<Rightarrow> True | Some d \<Rightarrow> started_at e \<ge> d)
      \<and> (case end_date of None \<Rightarrow> True | Some d \<Rightarrow> started_at e \<le> d))"

text \<open>
  The value a row is ordered by: whether it is \<^verbatim>\<open>NULL\<close>, its number, its text.
  PostgreSQL puts \<^verbatim>\<open>NULL\<close> last in ascending and first in descending order; text
  is compared by code points here, an enum by the order of its labels.
\<close>

type_synonym sort_value = "bool \<times> rat \<times> string"

definition number_value :: "rat \<Rightarrow> sort_value" where
  "number_value v = (False, v, [])"

definition text_value :: "string \<Rightarrow> sort_value" where
  "text_value s = (False, 0, s)"

definition nullable :: "('a \<Rightarrow> sort_value) \<Rightarrow> 'a option \<Rightarrow> sort_value" where
  "nullable f v = (case v of None \<Rightarrow> (True, 0, []) | Some x \<Rightarrow> f x)"

fun status_rank :: "ExecutionStatus \<Rightarrow> rat" where
  "status_rank Status_pending = 0"
| "status_rank Status_running = 1"
| "status_rank Status_success = 2"
| "status_rank Status_failure = 3"
| "status_rank Status_timeout = 4"
| "status_rank Status_cancelled = 5"

text \<open>The columns of the table \<^verbatim>\<open>agentexecutions\<close>, by the names of their attributes.\<close>

definition columns :: "(string \<times> (AgentExecution \<Rightarrow> sort_value)) list" where
  "columns =
     [(''id'', \<lambda>e. text_value (exec_id e)),
      (''request_id'', \<lambda>e. text_value (request_id e)),
      (''session_id'', \<lambda>e. text_value (session_id e)),
      (''agent_id'', \<lambda>e. nullable text_value (agent_id e)),
      (''agent_type'', \<lambda>e. nullable text_value (agent_type e)),
      (''agent_name'', \<lambda>e. nullable text_value (agent_name e)),
      (''user_id'', \<lambda>e. nullable text_value (user_id e)),
      (''model_config_id'', \<lambda>e. nullable text_value (model_config_id e)),
      (''model_name'', \<lambda>e. nullable text_value (model_name e)),
      (''started_at'', \<lambda>e. number_value (of_int (started_at e))),
      (''completed_at'', \<lambda>e. nullable (\<lambda>t. number_value (of_int t)) (completed_at e)),
      (''status'', \<lambda>e. number_value (status_rank (status e))),
      (''error_message'', \<lambda>e. nullable text_value (error_message e)),
      (''error_type'', \<lambda>e. nullable text_value (error_type e)),
      (''input_tokens'', \<lambda>e. number_value (of_int (input_tokens e))),
      (''output_tokens'', \<lambda>e. number_value (of_int (output_tokens e))),
      (''total_tokens'', \<lambda>e. number_value (of_int (total_tokens e))),
      (''execution_time_ms'', \<lambda>e. number_value (of_int (execution_time_ms e))),
      (''llm_time_ms'', \<lambda>e. nullable (\<lambda>t. number_value (of_int t)) (llm_time_ms e)),
      (''cost_usd'', \<lambda>e. number_value (cost_usd e)),
      (''parent_execution_id'', \<lambda>e. nullable text_value (parent_execution_id e)),
      (''query_preview'', \<lambda>e. nullable text_value (query_preview e)),
      (''created_at'', \<lambda>e. number_value (of_int (created_at e))),
      (''updated_at'', \<lambda>e. number_value (of_int (updated_at e)))]"

text \<open>
  \<^verbatim>\<open>getattr(self.model, sort_by, self.model.started_at)\<close>: the column of that name,
  and \<^verbatim>\<open>started_at\<close> for a name that is no attribute of the class.
\<close>

definition sort_column :: "string \<Rightarrow> AgentExecution \<Rightarrow> sort_value" where
  "sort_column sort_by =
     (case map_of columns sort_by of
        Some column \<Rightarrow> column
      | None \<Rightarrow> (\<lambda>e. number_value (of_int (started_at e))))"

text \<open>
  \<^verbatim>\<open>ORDER BY\<close> a column, ascending or descending; rows of equal value keep the order
  of the table.
\<close>

definition order_by :: "string \<Rightarrow> string \<Rightarrow> AgentExecution list \<Rightarrow> AgentExecution list" where
  "order_by sort_by sort_order rows =
     (if sort_order = ''desc'' then rev (sort_key (sort_column sort_by) (rev rows))
      else sort_key (sort_column sort_by) rows)"

text \<open>
  The class has attributes that are no columns (its relationships, \<^verbatim>\<open>metadata\<close>,
  \<^verbatim>\<open>registry\<close> and what the declarative base and Python give every class); the
  base class is not part of the sources, so their names are the parameter \<open>others\<close>.
  \<^verbatim>\<open>getattr\<close> finds such an attribute, and ordering by it raises
  (\<^verbatim>\<open>ArgumentError\<close>, or a compile error for a string).
\<close>

definition is_column :: "string \<Rightarrow> bool" where
  "is_column name = (name \<in> set (map fst columns))"

definition ordered ::
  "(string \<Rightarrow> bool) \<Rightarrow> string \<Rightarrow> string \<Rightarrow> AgentExecution list
   \<Rightarrow> error + AgentExecution list" where
  "ordered others sort_by sort_order rows =
     (if \<not> is_column sort_by \<and> others sort_by then Inl ArgumentError
      else Inr (order_by sort_by sort_order rows))"

text \<open>
  \<^verbatim>\<open>OFFSET\<close> and \<^verbatim>\<open>LIMIT\<close> are 64-bit arguments of the query: the driver rejects
  a value beyond \<open>2 ^ 63 - 1\<close>, PostgreSQL a negative one.
\<close>

definition int64_max :: int where
  "int64_max = 9223372036854775807"

definition offset_limit :: "int \<Rightarrow> int \<Rightarrow> 'a list \<Rightarrow> error + 'a list" where
  "offset_limit offset_n limit_n rows =
     (if offset_n < 0 \<or> limit_n < 0 \<or> int64_max < offset_n \<or> int64_max < limit_n
      then Inl DataError
      else Inr (take (nat limit_n) (drop (nat offset_n) rows)))"

definition list_paginated ::
  "(string \<Rightarrow> bool) \<Rightarrow> AgentExecution list
   \<Rightarrow> string option \<Rightarrow> string option \<Rightarrow> string option \<Rightarrow> string option
   \<Rightarrow> ExecutionStatus option \<Rightarrow> datetime option \<Rightarrow> datetime option
   \<Rightarrow> int \<Rightarrow> int \<Rightarrow> string \<Rightarrow> string \<Rightarrow> error + PaginatedExecutionsDTO" where
  "list_paginated others db uid aid atype mname st start_date end_date pg pg_size sort_by
     sort_order =
     (let matching = filter (list_filters uid aid atype mname st start_date end_date) db;
          count = int (length matching);
          offset_n = (pg - 1) * pg_size
      in
      bind_res (ordered others sort_by sort_order matching) (\<lambda>sorted_rows.
      bind_res (offset_limit offset_n pg_size sorted_rows) (\<lambda>rows.
      bind_res (py_floordiv (count + pg_size - 1) pg_size) (\<lambda>pages.
      Inr \<lparr> items = map summary_dto rows,
            total = count,
            page = pg,
            page_size = pg_size,
            total_pages = pages \<rparr>))))"

subsection \<open>get\_agent\_stats\<close>

record AgentStatsDTO =
  st_agent_id :: string
  st_agent_name :: string
  st_agent_type :: "string option"
  st_total_executions :: int
  st_successful_executions :: int
  st_failed_executions :: int
  st_timeout_executions :: int
  st_success_rate :: rat
  st_avg_execution_time_ms :: rat
  st_min_execution_time_ms :: int
  st_max_execution_time_ms :: int
  st_avg_input_tokens :: rat
  st_avg_output_tokens :: rat
  st_total_tokens :: int
  st_total_cost_usd :: rat
  st_avg_cost_per_execution_usd :: rat
  st_last_executed_at :: "datetime option"
  st_first_executed_at :: "datetime option"

definition sql_min :: "int list \<Rightarrow> int option" where
  "sql_min xs = (if xs = [] then None else Some (Min (set xs)))"

definition sql_max :: "int list \<Rightarrow> int option" where
  "sql_max xs = (if xs = [] then None else Some (Max (set xs)))"

definition agent_stats_filters ::
  "string \<Rightarrow> string option \<Rightarrow> datetime \<Rightarrow> datetime \<Rightarrow> AgentExecution \<Rightarrow> bool" where
  "agent_stats_filters aid uid start_date end_date e =
     (agent_id e = Some aid \<and> started_at e \<ge> start_date \<and> started_at e \<le> end_date
      \<and> (if truthy uid then user_id e = uid else True))"

text \<open>The DTO of one row of the statistics query (lines 408--430).\<close>

definition agent_stats_dto ::
  "string \<Rightarrow> (string option \<times> string option) \<times> AgentExecution list \<Rightarrow> error + AgentStatsDTO" where
  "agent_stats_dto aid kg =
     (case kg of ((name, type), grp) \<Rightarrow>
      let count = int (length grp);
          successful = or0 (sql_sum (map (\<lambda>e. count_if (status e = Status_success)) grp));
          total_cost = or0 (sql_sum (map cost_usd grp))
      in
      bind_res (guarded_percentage (of_int successful) (of_int count)) (\<lambda>rate.
      bind_res (if count > 0 then py_truediv total_cost (of_int count) else Inr 0) (\<lambda>avg_cost.
      Inr \<lparr> st_agent_id = aid,
            st_agent_name = or_unknown name,
            st_agent_type = type,
            st_total_executions = count,
            st_successful_executions = successful,
            st_failed_executions =
              or0 (sql_sum (map (\<lambda>e. count_if (status e = Status_failure)) grp)),
            st_timeout_executions =
              or0 (sql_sum (map (\<lambda>e. count_if (status e = Status_timeout)) grp)),
            st_success_rate = rate,
            st_avg_execution_time_ms = or0 (sql_avg (map execution_time_ms grp)),
            st_min_execution_time_ms = or0 (sql_min (map execution_time_ms grp)),
            st_max_execution_time_ms = or0 (sql_max (map execution_time_ms grp)),
            st_avg_input_tokens = or0 (sql_avg (map input_tokens grp)),
            st_avg_output_tokens = or0 (sql_avg (map output_tokens grp)),
            st_total_tokens = or0 (sql_sum (map total_tokens grp)),
            st_total_cost_usd = total_cost,
            st_avg_cost_per_execution_usd = avg_cost,
            st_last_executed_at = sql_max (map started_at grp),
            st_first_executed_at = sql_min (map started_at grp) \<rparr>)))"

text \<open>
  \<^verbatim>\<open>result.first()\<close> of a query with no \<^verbatim>\<open>ORDER BY\<close>: the database returns the rows
  in an order of its choice, so the first row is any of them; \<open>pick\<close> names the choice.
\<close>

definition first_row :: "nat \<Rightarrow> 'a list \<Rightarrow> 'a option" where
  "first_row pick rows = (if rows = [] then None else Some (rows ! (pick mod length rows)))"

definition get_agent_stats ::
  "AgentExecution list \<Rightarrow> nat \<Rightarrow> datetime \<Rightarrow> string \<Rightarrow> string option
   \<Rightarrow> datetime option \<Rightarrow> datetime option \<Rightarrow> error + AgentStatsDTO option" where
  "get_agent_stats db pick now aid uid start_arg end_arg =
     (let end_date = default_end now end_arg
      in
      bind_res (default_start (timedelta_days 30) end_date start_arg) (\<lambda>start_date.
      let rows = filter (agent_stats_filters aid uid start_date end_date) db
      in
      case first_row pick (group_by (\<lambda>e. (agent_name e, agent_type e)) rows) of
        None \<Rightarrow> Inr None
      | Some stats \<Rightarrow> bind_res (agent_stats_dto aid stats) (\<lambda>d. Inr (Some d))))"

subsection \<open>get\_cost\_summary\<close>

record ModelCostEntry =
  mc_model :: string
  mc_cost_usd :: rat
  mc_execution_count :: int
  mc_percentage :: rat

record AgentCostEntry =
  ac_agent_name :: string
  ac_agent_id :: "string option"
  ac_cost_usd :: rat
  ac_execution_count :: int
  ac_percentage :: rat

record CostSummary =
  cs_total_cost_usd :: rat
  cs_period_days :: int
  cs_by_model :: "ModelCostEntry list"
  cs_by_agent :: "AgentCostEntry list"

text \<open>Groups of a grouped cost query, dearest first.\<close>

definition cost_groups :: "(AgentExecution \<Rightarrow> 'k) \<Rightarrow> AgentExecution list \<Rightarrow> ('k \<times> AgentExecution list) list" where
  "cost_groups key rows =
     sort_key (\<lambda>kg. - or0 (sql_sum (map cost_usd (snd kg)))) (group_by key rows)"

definition model_cost_entry ::
  "rat \<Rightarrow> string option \<times> AgentExecution list \<Rightarrow> error + ModelCostEntry" where
  "model_cost_entry total_cost kg =
     (case kg of (name, grp) \<Rightarrow>
      bind_res (cost_percentage total_cost (sql_sum (map cost_usd grp))) (\<lambda>pct.
      Inr \<lparr> mc_model = or_unknown name,
            mc_cost_usd = or0 (sql_sum (map cost_usd grp)),
            mc_execution_count = int (length grp),
            mc_percentage = pct \<rparr>))"

definition agent_cost_entry ::
  "rat \<Rightarrow> (string option \<times> string option) \<times> AgentExecution list \<Rightarrow> error + AgentCostEntry" where
  "agent_cost_entry total_cost kg =
     (case kg of ((name, ident), grp) \<Rightarrow>
      bind_res (cost_percentage total_cost (sql_sum (map cost_usd grp))) (\<lambda>pct.
      Inr \<lparr> ac_agent_name = or_unknown name,
            ac_agent_id = (if truthy ident then ident else None),
            ac_cost_usd = or0 (sql_sum (map cost_usd grp)),
            ac_execution_count = int (length grp),
            ac_percentage = pct \<rparr>))"

definition get_cost_summary ::
  "AgentExecution list \<Rightarrow> datetime \<Rightarrow> string option \<Rightarrow> datetime option \<Rightarrow> datetime option
   \<Rightarrow> error + CostSummary" where
  "get_cost_summary db now uid start_arg end_arg =
     (let end_date = default_end now end_arg
      in
      bind_res (default_start (timedelta_days 30) end_date start_arg) (\<lambda>start_date.
      let rows = filter (overview_filters uid start_date end_date) db;
          total_cost = or0 (sql_sum (map cost_usd rows))
      in
      bind_res (map_res (model_cost_entry total_cost) (cost_groups model_name rows)) (\<lambda>by_model.
      bind_res (map_res (agent_cost_entry total_cost)
                  (cost_groups (\<lambda>e. (agent_name e, agent_id e)) rows)) (\<lambda>by_agent.
      Inr \<lparr> cs_total_cost_usd = total_cost,
            cs_period_days = days (end_date - start_date),
            cs_by_model = by_model,
            cs_by_agent = by_agent \<rparr>))))"

subsection \<open>get\_cost\_forecast\<close>

record CostForecastDTO =
  current_period_cost_usd :: rat
  projected_monthly_cost_usd :: rat
  projected_weekly_cost_usd :: rat
  daily_average_cost_usd :: rat
  cost_trend :: string
  trend_percentage :: rat

text \<open>The two sums of lines 520--537. The current period has no upper bound.\<close>

definition forecast_current_cost :: "AgentExecution list \<Rightarrow> datetime \<Rightarrow> string option \<Rightarrow> rat" where
  "forecast_current_cost db now uid =
     or0 (sql_sum (map cost_usd
       (filter (\<lambda>e. started_at e \<ge> now - timedelta_days 7
                    \<and> (if truthy uid then user_id e = uid else True)) db)))"

definition forecast_prev_cost :: "AgentExecution list \<Rightarrow> datetime \<Rightarrow> string option \<Rightarrow> rat" where
  "forecast_prev_cost db now uid =
     or0 (sql_sum (map cost_usd
       (filter (\<lambda>e. started_at e \<ge> now - timedelta_days 7 - timedelta_days 7
                    \<and> started_at e < now - timedelta_days 7
                    \<and> (if truthy uid then user_id e = uid else True)) db)))"

definition get_cost_forecast ::
  "AgentExecution list \<Rightarrow> datetime \<Rightarrow> string option \<Rightarrow> error + CostForecastDTO" where
  "get_cost_forecast db now uid =
     (let current_cost = forecast_current_cost db now uid;
          prev_cost = forecast_prev_cost db now uid
      in
      bind_res (py_truediv current_cost 7) (\<lambda>daily_avg.
      bind_res
        (if prev_cost > 0
         then bind_res (py_truediv (current_cost - prev_cost) prev_cost) (\<lambda>q.
                Inr (q * 100,
                     if q * 100 > 10 then ''increasing''
                     else if q * 100 < - 10 then ''decreasing''
                     else ''stable''))
         else Inr (0, ''stable''))
        (\<lambda>ct.
      Inr \<lparr> current_period_cost_usd = current_cost,
            projected_monthly_cost_usd = daily_avg * 30,
            projected_weekly_cost_usd = current_cost,
            daily_average_cost_usd = daily_avg,
            cost_trend = snd ct,
            trend_percentage = fst ct \<rparr>)))"

section \<open>BudgetAlertRepository\<close>

definition get_active_by_user :: "BudgetAlert list \<Rightarrow> string \<Rightarrow> BudgetAlert list" where
  "get_active_by_user alerts uid =
     filter (\<lambda>a. alert_user_id a = uid \<and> is_active a) alerts"

text \<open>
  The start of the rolling period (line 622),
  \<^verbatim>\<open>datetime.utcnow() - timedelta(days=alert.period_days)\<close>: both the timedelta and
  the difference can leave their range.
\<close>

definition rolling_start :: "datetime \<Rightarrow> int \<Rightarrow> error + datetime" where
  "rolling_start now period = bind_res (timedelta_of_days period) (datetime_sub now)"

text \<open>
  The filters of lines 624--630: the owner, the start of the rolling period, and the agent
  when the scope is \<^verbatim>\<open>agent\<close> with a \<^verbatim>\<open>scope_id\<close> that is true in Python.
\<close>

definition alert_filters :: "datetime \<Rightarrow> string \<Rightarrow> BudgetAlert \<Rightarrow> AgentExecution \<Rightarrow> bool" where
  "alert_filters start_date uid alert e =
     (user_id e = Some uid
      \<and> started_at e \<ge> start_date
      \<and> (if scope alert = Scope_agent \<and> truthy (scope_id alert)
          then agent_id e = scope_id alert else True))"

definition current_spend ::
  "AgentExecution list \<Rightarrow> datetime \<Rightarrow> string \<Rightarrow> BudgetAlert \<Rightarrow> error + rat" where
  "current_spend db now uid alert =
     bind_res (rolling_start now (period_days alert)) (\<lambda>start_date.
     Inr (or0 (sql_sum (map cost_usd (filter (alert_filters start_date uid alert) db)))))"

text \<open>
  The loop over the alerts (lines 620--639). Each pass reads the clock: \<open>clock i\<close> is the
  time of the read of pass \<open>i\<close>.
\<close>

fun check_alerts ::
  "AgentExecution list \<Rightarrow> (nat \<Rightarrow> datetime) \<Rightarrow> string \<Rightarrow> nat \<Rightarrow> BudgetAlert list
   \<Rightarrow> error + (BudgetAlert \<times> rat) list" where
  "check_alerts db clock uid i [] = Inr []"
| "check_alerts db clock uid i (alert # alerts) =
     bind_res (current_spend db (clock i) uid alert) (\<lambda>spend.
     bind_res
       (py_truediv (threshold_usd alert * of_int (alert_at_percentage alert)) 100)
       (\<lambda>threshold.
     bind_res (check_alerts db clock uid (Suc i) alerts) (\<lambda>exceeded.
     Inr (if spend \<ge> threshold then (alert, spend) # exceeded else exceeded))))"

definition check_budget_exceeded ::
  "BudgetAlert list \<Rightarrow> AgentExecution list \<Rightarrow> (nat \<Rightarrow> datetime) \<Rightarrow> string
   \<Rightarrow> error + (BudgetAlert \<times> rat) list" where
  "check_budget_exceeded alerts db clock uid =
     check_alerts db clock uid 0 (get_active_by_user alerts uid)"

section \<open>Routes\<close>

definition parse_period :: "datetime \<Rightarrow> string \<Rightarrow> datetime \<times> datetime" where
  "parse_period now period =
     (if period = ''24h'' then (now - timedelta_hours 24, now)
      else if period = ''7d'' then (now - timedelta_days 7, now)
      else if period = ''30d'' then (now - timedelta_days 30, now)
      else if period = ''90d'' then (now - timedelta_days 90, now)
      else (now - timedelta_hours 24, now))"

text \<open>\<^verbatim>\<open>if start_date and end_date: pass else: parse_period(period)\<close>.\<close>

definition request_window ::
  "datetime \<Rightarrow> string \<Rightarrow> datetime option \<Rightarrow> datetime option \<Rightarrow> datetime \<times> datetime" where
  "request_window now period start_arg end_arg =
     (case start_arg of
        None \<Rightarrow> parse_period now period
      | Some s \<Rightarrow> (case end_arg of None \<Rightarrow> parse_period now period | Some e \<Rightarrow> (s, e)))"

subsection \<open>export\_analytics\_data\<close>

text \<open>
  The body of the response: the rows of the CSV file after its header, or the JSON
  document's \<^verbatim>\<open>total_records\<close> and \<^verbatim>\<open>executions\<close>.
\<close>

datatype export =
  CsvExport "AgentExecutionSummaryDTO list"
  | JsonExport int "AgentExecutionSummaryDTO list"

fun exported :: "export \<Rightarrow> AgentExecutionSummaryDTO list" where
  "exported (CsvExport rows) = rows"
| "exported (JsonExport n rows) = rows"

definition export_analytics_data ::
  "(string \<Rightarrow> bool) \<Rightarrow> AgentExecution list \<Rightarrow> datetime \<Rightarrow> string \<Rightarrow> string \<Rightarrow> string
   \<Rightarrow> datetime option \<Rightarrow> datetime option \<Rightarrow> error + export" where
  "export_analytics_data others db now user format period start_arg end_arg =
     (let window = request_window now period start_arg end_arg
      in
      bind_res
        (list_paginated others db (Some user) None None None None
           (Some (fst window)) (Some (snd window)) 1 10000 ''started_at'' ''desc'')
        (\<lambda>paginated.
      if format = ''csv'' then Inr (CsvExport (items paginated))
      else Inr (JsonExport (total paginated) (items paginated))))"

subsection \<open>compare\_models\<close>

record ModelComparison =
  cmp_model_name :: "string option"
  cmp_execution_count :: int
  cmp_success_count :: int
  cmp_success_rate :: rat
  cmp_avg_execution_time_ms :: rat
  cmp_avg_tokens :: rat
  cmp_total_tokens :: int
  cmp_total_cost_usd :: rat

definition compare_filters :: "string \<Rightarrow> datetime \<Rightarrow> datetime \<Rightarrow> AgentExecution \<Rightarrow> bool" where
  "compare_filters user start_date end_date e =
     (user_id e = Some user \<and> started_at e \<ge> start_date \<and> started_at e \<le> end_date
      \<and> model_name e \<noteq> None)"

definition model_comparison :: "string option \<times> AgentExecution list \<Rightarrow> error + ModelComparison" where
  "model_comparison kg =
     (case kg of (name, grp) \<Rightarrow>
      let execution_count = int (length grp);
          success_count = or0 (sql_sum (map (\<lambda>e. count_if (status e = Status_success)) grp))
      in
      bind_res (guarded_percentage (of_int success_count) (of_int execution_count)) (\<lambda>rate.
      Inr \<lparr> cmp_model_name = name,
            cmp_execution_count = execution_count,
            cmp_success_count = success_count,
            cmp_success_rate = rate,
            cmp_avg_execution_time_ms = or0 (sql_avg (map execution_time_ms grp)),
            cmp_avg_tokens = or0 (sql_avg (map total_tokens grp)),
            cmp_total_tokens = or0 (sql_sum (map total_tokens grp)),
            cmp_total_cost_usd = or0 (sql_sum (map cost_usd grp)) \<rparr>))"

definition compare_models ::
  "AgentExecution list \<Rightarrow> datetime \<Rightarrow> string \<Rightarrow> string
   \<Rightarrow> datetime option \<Rightarrow> datetime option \<Rightarrow> error + ModelComparison list" where
  "compare_models db now user period start_arg end_arg =
     (let window = request_window now period start_arg end_arg;
          rows = filter (compare_filters user (fst window) (snd window)) db
      in
      map_res model_comparison
        (sort_key (\<lambda>kg. - int (length (snd kg))) (group_by model_name rows)))"

section \<open>The specification's words\<close>

text \<open>
  Percentile timing as the specification words it: the execution times greater than 0,
  sorted ascending into an array of length \<open>n\<close>, read at index \<open>\<lfloor>p * n\<rfloor>\<close>; 0 when the
  array is empty.
\<close>

definition positive_times :: "AgentExecution list \<Rightarrow> int list" where
  "positive_times rows = filter (\<lambda>t. t > 0) (map execution_time_ms rows)"

definition nearest_rank :: "rat \<Rightarrow> int list \<Rightarrow> int" where
  "nearest_rank p values =
     (let arr = sort values; n = length arr
      in if n = 0 then 0 else arr ! nat \<lfloor>p * of_nat n\<rfloor>)"

text \<open>
  The scope of a request: the rows of the owner when one is given, every row otherwise.
\<close>

definition in_scope :: "string option \<Rightarrow> AgentExecution \<Rightarrow> bool" where
  "in_scope uid e = (if truthy uid then user_id e = uid else True)"

text \<open>
  The rows of a window of time, closed above (\<open>start \<le> t \<le> end\<close>) and open above
  (\<open>start \<le> t < end\<close>).
\<close>

definition closed_rows ::
  "AgentExecution list \<Rightarrow> string option \<Rightarrow> datetime \<Rightarrow> datetime \<Rightarrow> AgentExecution list" where
  "closed_rows db uid start_date end_date =
     filter (\<lambda>e. start_date \<le> started_at e \<and> started_at e \<le> end_date \<and> in_scope uid e) db"

definition half_open_rows ::
  "AgentExecution list \<Rightarrow> string option \<Rightarrow> datetime \<Rightarrow> datetime \<Rightarrow> AgentExecution list" where
  "half_open_rows db uid start_date end_date =
     filter (\<lambda>e. start_date \<le> started_at e \<and> started_at e < end_date \<and> in_scope uid e) db"

text \<open>
  The comparison with the previous period: the baseline is the window
  \<open>[start - length, start)\<close> with \<open>length = end - start\<close>; a percent change is
  \<open>(current - previous) / previous * 100\<close>, and null when the previous value is 0.
\<close>

definition baseline_rows ::
  "AgentExecution list \<Rightarrow> string option \<Rightarrow> datetime \<Rightarrow> datetime \<Rightarrow> AgentExecution list" where
  "baseline_rows db uid start_date end_date =
     half_open_rows db uid (start_date - (end_date - start_date)) start_date"

definition percent_change :: "rat \<Rightarrow> rat \<Rightarrow> rat option" where
  "percent_change current previous =
     (if previous = 0 then None else Some ((current - previous) / previous * 100))"

definition success_percentage :: "AgentExecution list \<Rightarrow> rat" where
  "success_percentage rows =
     (if rows = [] then 0
      else of_nat (length (filter (\<lambda>e. status e = Status_success) rows))
           / of_nat (length rows) * 100)"

text \<open>
  The monthly estimate: \<open>total_cost * 30\<close> for a window of exactly one day, and
  \<open>total_cost * 30 / max(window_length_days, 1)\<close> for any other, the days of a window
  being its whole days.
\<close>

definition monthly_estimate :: "rat \<Rightarrow> timedelta \<Rightarrow> rat" where
  "monthly_estimate cost window_length =
     (if window_length = timedelta_days 1 then cost * 30
      else cost * 30 / of_int (max (days window_length) 1))"

text \<open>The rows of a scope started at or after a point of time.\<close>

definition rows_since ::
  "AgentExecution list \<Rightarrow> string option \<Rightarrow> datetime \<Rightarrow> AgentExecution list" where
  "rows_since db uid start_date =
     filter (\<lambda>e. start_date \<le> started_at e \<and> in_scope uid e) db"

definition cost_of :: "AgentExecution list \<Rightarrow> rat" where
  "cost_of rows = sum_list (map cost_usd rows)"

text \<open>
  The spend of an owner over the rolling period of an alert, and the part of it spent on
  one agent.
\<close>

definition owner_spend :: "AgentExecution list \<Rightarrow> datetime \<Rightarrow> string \<Rightarrow> int \<Rightarrow> rat" where
  "owner_spend db now uid period =
     cost_of (filter (\<lambda>e. user_id e = Some uid
                        \<and> now - timedelta_days period \<le> started_at e) db)"

definition agent_spend ::
  "AgentExecution list \<Rightarrow> datetime \<Rightarrow> string \<Rightarrow> int \<Rightarrow> string \<Rightarrow> rat" where
  "agent_spend db now uid period agent =
     cost_of (filter (\<lambda>e. user_id e = Some uid
                        \<and> now - timedelta_days period \<le> started_at e
                        \<and> agent_id e = Some agent) db)"

text \<open>
  A share: \<open>part / whole * 100\<close> when the whole is positive, 0 when it is 0.
\<close>

definition share :: "rat \<Rightarrow> rat \<Rightarrow> rat" where
  "share part whole = (if whole > 0 then part / whole * 100 else 0)"

text \<open>The rows of a group: those that agree with a row on the grouping key.\<close>

definition same_by :: "('a \<Rightarrow> 'k) \<Rightarrow> 'a \<Rightarrow> 'a list \<Rightarrow> 'a list" where
  "same_by key e rows = filter (\<lambda>x. key x = key e) rows"

definition successes :: "AgentExecution list \<Rightarrow> AgentExecution list" where
  "successes rows = filter (\<lambda>e. status e = Status_success) rows"

definition mean_time :: "AgentExecution list \<Rightarrow> rat" where
  "mean_time rows =
     (if rows = [] then 0
      else of_int (sum_list (map execution_time_ms rows)) / of_nat (length rows))"

definition mean_cost :: "AgentExecution list \<Rightarrow> rat" where
  "mean_cost rows = (if rows = [] then 0 else cost_of rows / of_nat (length rows))"

text \<open>The rows of one owner in a closed window, as the model comparison reads them.\<close>

definition owner_rows ::
  "AgentExecution list \<Rightarrow> string \<Rightarrow> datetime \<Rightarrow> datetime \<Rightarrow> AgentExecution list" where
  "owner_rows db user start_date end_date =
     filter (\<lambda>e. user_id e = Some user \<and> start_date \<le> started_at e
                  \<and> started_at e \<le> end_date) db"

text \<open>
  The budget check: the active alerts of a user; the spend of an alert over its rolling
  period, of the owner or, for an alert scoped to a named agent, of the owner on that agent; the
  alert is exceeded when the spend reaches \<open>threshold * alert_at_percentage / 100\<close>. The
  period is in range when its start is a \<^verbatim>\<open>datetime\<close>.
\<close>

definition active_alerts :: "BudgetAlert list \<Rightarrow> string \<Rightarrow> BudgetAlert list" where
  "active_alerts alerts uid = filter (\<lambda>a. alert_user_id a = uid \<and> is_active a) alerts"

definition period_spend ::
  "AgentExecution list \<Rightarrow> datetime \<Rightarrow> string \<Rightarrow> BudgetAlert \<Rightarrow> rat" where
  "period_spend db now uid alert =
     (case scope_id alert of
        None \<Rightarrow> owner_spend db now uid (period_days alert)
      | Some agent \<Rightarrow>
          if scope alert = Scope_agent \<and> agent \<noteq> []
          then agent_spend db now uid (period_days alert) agent
          else owner_spend db now uid (period_days alert))"

definition budget_reached :: "BudgetAlert \<Rightarrow> rat \<Rightarrow> bool" where
  "budget_reached alert spend =
     (spend \<ge> threshold_usd alert * of_int (alert_at_percentage alert) / 100)"

definition period_in_range :: "datetime \<Rightarrow> int \<Rightarrow> bool" where
  "period_in_range now period =
     (- 999999999 \<le> period \<and> period \<le> 999999999
      \<and> valid_datetime (now - timedelta_days period))"

text \<open>
  The periods of a list of alerts are in range when each is at the time its pass reads
  the clock, the passes counted from \<open>i\<close>. The alerts the check reports: the active
  alerts, each with the spend at the time its pass reads the clock, that are exceeded.
\<close>

fun periods_in_range :: "(nat \<Rightarrow> datetime) \<Rightarrow> nat \<Rightarrow> BudgetAlert list \<Rightarrow> bool" where
  "periods_in_range clock i [] = True"
| "periods_in_range clock i (alert # alerts) =
     (period_in_range (clock i) (period_days alert) \<and> periods_in_range clock (Suc i) alerts)"

definition exceeded_alerts ::
  "BudgetAlert list \<Rightarrow> AgentExecution list \<Rightarrow> (nat \<Rightarrow> datetime) \<Rightarrow> string
   \<Rightarrow> (BudgetAlert \<times> rat) list" where
  "exceeded_alerts alerts db clock uid =
     map (\<lambda>ia. (snd ia, period_spend db (clock (fst ia)) uid (snd ia)))
       (filter (\<lambda>ia. budget_reached (snd ia) (period_spend db (clock (fst ia)) uid (snd ia)))
          (enumerate 0 (active_alerts alerts uid)))"

section \<open>Sample data\<close>

text \<open>
  A small table for the concrete instances below: executions of two users, two agents and
  two models, on one day and in the weeks before it.
\<close>

definition sample_execution ::
  "string \<Rightarrow> string \<Rightarrow> string \<Rightarrow> datetime \<Rightarrow> ExecutionStatus \<Rightarrow> int \<Rightarrow> rat
   \<Rightarrow> AgentExecution" where
  "sample_execution uid agent model t st ms cost =
     \<lparr> exec_id = ''e'', request_id = ''r'', session_id = ''s'',
       agent_id = Some agent, agent_type = Some ''genai'', agent_name = Some agent,
       user_id = Some uid, model_config_id = None, model_name = Some model,
       started_at = t, completed_at = None, status = st,
       error_message = None, error_type = None,
       input_tokens = 10, output_tokens = 5, total_tokens = 15,
       execution_time_ms = ms, llm_time_ms = None, cost_usd = cost,
       parent_execution_id = None, query_preview = None,
       created_at = t, updated_at = t \<rparr>"

text \<open>The third of November 2026, 739922 days after \<^verbatim>\<open>datetime.min\<close>.\<close>

definition sample_now :: datetime where
  "sample_now = timedelta_days 739922"

definition sample_clock :: "nat \<Rightarrow> datetime" where
  "sample_clock i = sample_now + int i"

definition sample_others :: "string \<Rightarrow> bool" where
  "sample_others name = (name \<in> set [''metadata'', ''registry'', ''traces'', ''token_usages''])"

definition sample_db :: "AgentExecution list" where
  "sample_db =
     [sample_execution ''u1'' ''a1'' ''m1'' (sample_now - timedelta_hours 1) Status_success 120 (3 / 2),
      sample_execution ''u1'' ''a1'' ''m2'' (sample_now - timedelta_hours 2) Status_failure 80 (1 / 2),
      sample_execution ''u1'' ''a2'' ''m1'' (sample_now - timedelta_hours 3) Status_success 0 1,
      sample_execution ''u1'' ''a1'' ''m1'' (sample_now - timedelta_hours 30) Status_success 100 1,
      sample_execution ''u1'' ''a2'' ''m2'' (sample_now - timedelta_days 10) Status_timeout 300 2,
      sample_execution ''u2'' ''a1'' ''m1'' (sample_now - timedelta_hours 1) Status_success 60 5]"

definition sample_alert :: "BudgetScope \<Rightarrow> string option \<Rightarrow> rat \<Rightarrow> int \<Rightarrow> BudgetAlert" where
  "sample_alert sc sid limit_usd pct =
     \<lparr> alert_id = ''b'', alert_user_id = ''u1'', scope = sc, scope_id = sid,
       threshold_usd = limit_usd, period_days = 30, alert_at_percentage = pct,
       is_active = True \<rparr>"

section \<open>Properties\<close>

subsection \<open>The operators never raise under their guards\<close>

lemma bind_res_Inr [simp]: "bind_res (Inr v) f = f v"
  by (simp add: bind_res_def)

lemma bind_res_Inl [simp]: "bind_res (Inl e) f = Inl e"
  by (simp add: bind_res_def)

lemma guarded_percentage_eq:
  "guarded_percentage a b = Inr (if b > 0 then a / b * 100 else 0)"
  by (simp add: guarded_percentage_def py_truediv_def)

lemma calc_change_eq:
  "calc_change c p = Inr (if p = 0 then None else Some ((c - p) / p * 100))"
  by (simp add: calc_change_def py_truediv_def)

lemma int_mul_range:
  assumes "0 \<le> c" "c < 1" "0 < n"
  shows "0 \<le> int_mul n c \<and> int_mul n c < int n"
proof -
  have "0 \<le> of_nat n * c" using assms by simp
  then have lo: "0 \<le> int_mul n c" by (simp add: int_mul_def)
  have "of_nat n * c < of_nat n * 1" using assms by (intro mult_strict_left_mono) simp_all
  then have "of_nat n * c < of_int (int n)" by simp
  then have "int_mul n c < int n" unfolding int_mul_def by (simp only: floor_less_iff)
  with lo show ?thesis by simp
qed

lemma time_at_half:
  "time_at ts (py_floordiv (int (length ts)) 2) =
     Inr (if ts = [] then 0 else ts ! (length ts div 2))"
proof (cases "ts = []")
  case True
  then show ?thesis by (simp add: time_at_def)
next
  case False
  then have lt: "length ts div 2 < length ts" by simp
  have eq: "int (length ts) div 2 = int (length ts div 2)" by (simp add: zdiv_int)
  show ?thesis using False lt
    by (simp add: time_at_def py_floordiv_def py_index_def eq del: of_nat_div)
qed

lemma time_at_int_mul:
  assumes "0 \<le> c" "c < 1"
  shows "time_at ts (Inr (int_mul (length ts) c)) =
     Inr (if ts = [] then 0 else ts ! nat (int_mul (length ts) c))"
proof (cases "ts = []")
  case True
  then show ?thesis by (simp add: time_at_def)
next
  case False
  then have "0 < length ts" by simp
  from int_mul_range [OF assms this] show ?thesis using False
    by (simp add: time_at_def py_index_def)
qed

lemma map_res_total:
  assumes "\<And>x. x \<in> set xs \<Longrightarrow> \<exists>y. f x = Inr y"
  shows "\<exists>ys. map_res f xs = Inr ys"
  using assms
proof (induction xs)
  case Nil
  then show ?case by simp
next
  case (Cons x xs)
  then obtain y where y: "f x = Inr y" by auto
  from Cons obtain ys where "map_res f xs = Inr ys" by auto
  with y show ?case by simp
qed

lemma map_res_Inr_nth:
  "map_res f xs = Inr ys \<Longrightarrow> list_all2 (\<lambda>x y. f x = Inr y) xs ys"
proof (induction xs arbitrary: ys)
  case Nil
  then show ?case by simp
next
  case (Cons x xs)
  then show ?case
    by (auto simp: bind_res_def split: sum.splits)
qed

lemma top_agent_dto_total: "\<exists>d. top_agent_dto row = Inr d"
  by (simp add: top_agent_dto_def guarded_percentage_eq)

lemma group_by_nonempty:
  "(k, grp) \<in> set (group_by key rows) \<Longrightarrow> grp \<noteq> []"
  by (auto simp: group_by_def filter_empty_conv)

lemma model_cost_query_cost:
  "row \<in> set (model_cost_query rows) \<Longrightarrow> mg_cost row \<noteq> None"
  by (auto simp: model_cost_query_def model_group_def sql_sum_def dest: group_by_nonempty)

lemma cost_breakdown_dto_total:
  "mg_cost row \<noteq> None \<Longrightarrow> \<exists>d. cost_breakdown_dto total_cost row = Inr d"
  by (auto simp: cost_breakdown_dto_def cost_percentage_def py_truediv_def)


lemma top_agents_total: "\<exists>agents. map_res top_agent_dto (top_agents_query rows) = Inr agents"
  using map_res_total [of "top_agents_query rows" top_agent_dto] top_agent_dto_total by blast

lemma cost_by_model_total:
  "\<exists>by_model. map_res (cost_breakdown_dto total_cost) (model_cost_query rows) = Inr by_model"
  using map_res_total [of "model_cost_query rows" "cost_breakdown_dto total_cost"]
    cost_breakdown_dto_total model_cost_query_cost by blast

lemma default_start_eq:
  "default_start delta (default_end now end_arg) start_arg =
     (if default_in_range delta now start_arg end_arg
      then Inr (window_start delta now start_arg end_arg) else Inl OverflowError)"
  by (simp add: default_start_def default_in_range_def window_start_def datetime_sub_def
      split: option.splits)

subsection \<open>The overview in closed form\<close>

text \<open>
  \<open>get_overview\<close> returns for every table and every request in range, and raises
  \<^verbatim>\<open>OverflowError\<close> for the others: no division by zero, no subscript out of range,
  no missing cost. The value of each field is read off below.
\<close>

lemma get_overview_eq:
  fixes db now uid start_arg end_arg
  defines "rows \<equiv> overview_rows db now uid start_arg end_arg"
    and "prev \<equiv> previous_rows db now uid start_arg end_arg"
    and "period_length \<equiv> overview_end now end_arg - overview_start now start_arg end_arg"
  defines "metrics \<equiv> metrics_query rows"
    and "time_list \<equiv> time_query rows"
    and "pm \<equiv> prev_query prev"
  defines "rate \<equiv> (if m_total metrics > 0
        then of_int (or0 (m_successful metrics)) / of_int (m_total metrics) * 100 else 0 :: rat)"
    and "prev_rate \<equiv> (if pm_total pm > 0
        then of_int (or0 (pm_successful pm)) / of_int (pm_total pm) * 100 else 0 :: rat)"
  shows "get_overview db now uid start_arg end_arg =
      (if overview_in_range now start_arg end_arg then
       Inr \<lparr> total_executions = m_total metrics,
            successful_executions = or0 (m_successful metrics),
            failed_executions = or0 (m_failed metrics),
            success_rate = rate,
            avg_execution_time_ms = or0 (m_avg_time metrics),
            p50_execution_time_ms =
              of_int (if time_list = [] then 0 else time_list ! (length time_list div 2)),
            p95_execution_time_ms =
              of_int (if time_list = [] then 0
                      else time_list ! nat (int_mul (length time_list) (95 / 100))),
            p99_execution_time_ms =
              of_int (if time_list = [] then 0
                      else time_list ! nat (int_mul (length time_list) (99 / 100))),
            total_input_tokens = or0 (m_input_tokens metrics),
            total_output_tokens = or0 (m_output_tokens metrics),
            ov_total_tokens = or0 (m_total_tokens metrics),
            total_cost_usd = or0 (m_total_cost metrics),
            estimated_monthly_cost_usd =
              (if days period_length = 1 then or0 (m_total_cost metrics) * 30
               else or0 (m_total_cost metrics) * 30 / of_int (max (days period_length) 1)),
            executions_change_percent =
              (if pm_total pm = 0 then None
               else Some ((of_int (m_total metrics) - of_int (pm_total pm)) / of_int (pm_total pm) * 100)),
            execution_time_change_percent =
              (if or0 (pm_avg_time pm) = 0 then None
               else Some ((or0 (m_avg_time metrics) - or0 (pm_avg_time pm)) / or0 (pm_avg_time pm) * 100)),
            success_rate_change_percent =
              (if prev_rate = 0 then None else Some ((rate - prev_rate) / prev_rate * 100)),
            cost_change_percent =
              (if or0 (pm_total_cost pm) = 0 then None
               else Some ((or0 (m_total_cost metrics) - or0 (pm_total_cost pm)) / or0 (pm_total_cost pm) * 100)),
            active_agents_count = active_agents_query rows,
            top_agents = projr (map_res top_agent_dto (top_agents_query rows)),
            cost_by_model =
              projr (map_res (cost_breakdown_dto (or0 (m_total_cost metrics)))
                (model_cost_query rows)) \<rparr>
       else Inl OverflowError)"
proof -
  obtain agents where agents: "map_res top_agent_dto (top_agents_query rows) = Inr agents"
    using top_agents_total by blast
  obtain by_model where by_model:
    "map_res (cost_breakdown_dto (or0 (m_total_cost metrics))) (model_cost_query rows) = Inr by_model"
    using cost_by_model_total by blast
  have rows: "filter (overview_filters uid (overview_start now start_arg end_arg)
      (default_end now end_arg)) db = rows"
    by (simp add: rows_def overview_rows_def overview_end_def)
  have prev: "filter (prev_filters uid (overview_start now start_arg end_arg - period_length)
      (overview_start now start_arg end_arg)) db = prev"
    by (simp add: prev_def previous_rows_def Let_def period_length_def)
  have pl: "default_end now end_arg - overview_start now start_arg end_arg = period_length"
    by (simp add: period_length_def overview_end_def)
  have max1: "days period_length \<noteq> 1 \<Longrightarrow> (of_int (max (days period_length) 1) :: rat) \<noteq> 0"
    by (simp add: max_def)
  have t50: "time_at time_list (py_floordiv (int (length time_list)) 2) =
      Inr (if time_list = [] then 0 else time_list ! (length time_list div 2))"
    by (rule time_at_half)
  have t95: "time_at time_list (Inr (int_mul (length time_list) (95 / 100))) =
     Inr (if time_list = [] then 0 else time_list ! nat (int_mul (length time_list) (95 / 100)))"
    by (rule time_at_int_mul) simp_all
  have t99: "time_at time_list (Inr (int_mul (length time_list) (99 / 100))) =
     Inr (if time_list = [] then 0 else time_list ! nat (int_mul (length time_list) (99 / 100)))"
    by (rule time_at_int_mul) simp_all
  have eq: "get_overview db now uid start_arg end_arg =
      (if overview_in_range now start_arg end_arg then
       Inr \<lparr> total_executions = m_total metrics,
            successful_executions = or0 (m_successful metrics),
            failed_executions = or0 (m_failed metrics),
            success_rate = rate,
            avg_execution_time_ms = or0 (m_avg_time metrics),
            p50_execution_time_ms =
              of_int (if time_list = [] then 0 else time_list ! (length time_list div 2)),
            p95_execution_time_ms =
              of_int (if time_list = [] then 0
                      else time_list ! nat (int_mul (length time_list) (95 / 100))),
            p99_execution_time_ms =
              of_int (if time_list = [] then 0
                      else time_list ! nat (int_mul (length time_list) (99 / 100))),
            total_input_tokens = or0 (m_input_tokens metrics),
            total_output_tokens = or0 (m_output_tokens metrics),
            ov_total_tokens = or0 (m_total_tokens metrics),
            total_cost_usd = or0 (m_total_cost metrics),
            estimated_monthly_cost_usd =
              (if days period_length = 1 then or0 (m_total_cost metrics) * 30
               else or0 (m_total_cost metrics) * 30 / of_int (max (days period_length) 1)),
            executions_change_percent =
              (if pm_total pm = 0 then None
               else Some ((of_int (m_total metrics) - of_int (pm_total pm)) / of_int (pm_total pm) * 100)),
            execution_time_change_percent =
              (if or0 (pm_avg_time pm) = 0 then None
               else Some ((or0 (m_avg_time metrics) - or0 (pm_avg_time pm)) / or0 (pm_avg_time pm) * 100)),
            success_rate_change_percent =
              (if prev_rate = 0 then None else Some ((rate - prev_rate) / prev_rate * 100)),
            cost_change_percent =
              (if or0 (pm_total_cost pm) = 0 then None
               else Some ((or0 (m_total_cost metrics) - or0 (pm_total_cost pm)) / or0 (pm_total_cost pm) * 100)),
            active_agents_count = active_agents_query rows,
            top_agents = agents,
            cost_by_model = by_model \<rparr>
       else Inl OverflowError)"
  proof (cases "default_in_range (timedelta_hours 24) now start_arg end_arg")
    case False
    then have "default_start (timedelta_hours 24) (default_end now end_arg) start_arg
        = Inl OverflowError"
      by (simp add: default_start_eq)
    with False show ?thesis
      by (simp add: get_overview_def Let_def overview_in_range_def)
  next
    case True
    then have ds: "default_start (timedelta_hours 24) (default_end now end_arg) start_arg
        = Inr (overview_start now start_arg end_arg)"
      by (simp add: default_start_eq overview_start_def)
    show ?thesis
    proof (cases "valid_datetime (overview_start now start_arg end_arg - period_length)")
      case False
      then have sub: "datetime_sub (overview_start now start_arg end_arg) period_length
          = Inl OverflowError"
        by (simp add: datetime_sub_def)
      from False have out: "\<not> overview_in_range now start_arg end_arg"
        by (simp add: overview_in_range_def period_length_def)
      show ?thesis
        unfolding get_overview_def Let_def ds bind_res_Inr rows pl
        unfolding metrics_def [symmetric] time_list_def [symmetric]
        unfolding guarded_percentage_eq t50 t95 t99 agents by_model bind_res_Inr sub
        using out by simp
    next
      case valid: True
      then have sub: "datetime_sub (overview_start now start_arg end_arg) period_length
          = Inr (overview_start now start_arg end_arg - period_length)"
        by (simp add: datetime_sub_def)
      from True valid have inr: "overview_in_range now start_arg end_arg"
        by (simp add: overview_in_range_def period_length_def)
      show ?thesis
        unfolding get_overview_def Let_def ds bind_res_Inr rows pl
        unfolding metrics_def [symmetric] time_list_def [symmetric]
        unfolding guarded_percentage_eq t50 t95 t99 agents by_model bind_res_Inr sub
        unfolding prev pm_def [symmetric] guarded_percentage_eq calc_change_eq bind_res_Inr
        using max1 inr by (simp add: py_truediv_def rate_def prev_rate_def)
    qed
  qed
  show ?thesis unfolding agents by_model sum.sel by (rule eq)
qed

subsection \<open>The percentile index in double precision\<close>

lemma bit_length_bounds:
  "0 < n \<Longrightarrow> 2 ^ (bit_length n - 1) \<le> n \<and> n < 2 ^ bit_length n"
proof (induction n rule: bit_length.induct)
  case (1 n)
  show ?case
  proof (cases "n div 2 = 0")
    case True
    with 1(2) have "n = Suc 0" by (simp add: div_eq_0_iff)
    moreover have "bit_length (Suc 0) = Suc 0"
      by (simp add: bit_length.simps [of "Suc 0"] bit_length.simps [of 0])
    ultimately show ?thesis by simp
  next
    case False
    then have pos: "0 < n div 2" by simp
    from 1(2) have n0: "n \<noteq> 0" by simp
    from 1(1) [OF n0 pos] have lo: "2 ^ (bit_length (n div 2) - 1) \<le> n div 2"
      and hi: "n div 2 < 2 ^ bit_length (n div 2)" by simp_all
    have bl: "bit_length n = Suc (bit_length (n div 2))"
      using n0 by (simp add: bit_length.simps [of n])
    have "0 < bit_length (n div 2)"
      using pos by (simp add: bit_length.simps [of "n div 2"])
    then have "(2 :: nat) ^ bit_length (n div 2) = 2 * 2 ^ (bit_length (n div 2) - 1)"
      by (cases "bit_length (n div 2)") simp_all
    with lo have "2 ^ bit_length (n div 2) \<le> 2 * (n div 2)" by simp
    also have "\<dots> \<le> n" by simp
    finally have "2 ^ (bit_length n - 1) \<le> n" by (simp add: bl)
    moreover from hi have "n < 2 * 2 ^ bit_length (n div 2)" by linarith
    ultimately show ?thesis by (simp add: bl)
  qed
qed

lemma round_to_multiple_error:
  "2 * round_to_multiple N s \<le> 2 * N + 2 ^ s \<and> 2 * N \<le> 2 * round_to_multiple N s + 2 ^ s"
proof -
  define P :: nat where "P = 2 ^ s"
  define q where "q = N div P"
  define r where "r = N mod P"
  have P: "0 < P" by (simp add: P_def)
  have N: "N = q * P + r" by (simp add: q_def r_def)
  have r: "r < P" using P by (simp add: r_def)
  show ?thesis
    unfolding round_to_multiple_def Let_def P_def [symmetric] q_def [symmetric] r_def [symmetric]
    using N r by (auto simp: algebra_simps)
qed

lemma round_to_multiple_exact:
  assumes "2 ^ s dvd T" "N \<le> T" "2 * (T - N) < 2 ^ s"
  shows "round_to_multiple N s = T"
proof -
  define P :: nat where "P = 2 ^ s"
  have P: "0 < P" by (simp add: P_def)
  from assms(1) obtain t where T: "T = t * P" by (auto simp: P_def dvd_def mult.commute)
  show ?thesis
  proof (cases "N = T")
    case True
    then show ?thesis
      using P by (simp add: round_to_multiple_def T P_def [symmetric])
  next
    case False
    with assms(2) have lt: "N < T" by simp
    with T P have "0 < t" by (cases t) simp_all
    then obtain u where t: "t = Suc u" by (cases t) simp_all
    from assms(3) have d: "2 * (T - N) < P" by (simp add: P_def)
    then have "T - N < P" by simp
    with lt T t have lo: "u * P < N" by simp
    define r where "r = N - u * P"
    have N: "N = u * P + r" using lo by (simp add: r_def)
    have rP: "r < P" using lt T t N by simp
    have q: "N div P = u" using N rP by simp
    have m: "N mod P = r" using N rP by simp
    have "T - N = P - r" using T t N by simp
    with d rP have "P < 2 * r" by linarith
    then show ?thesis
      by (simp add: round_to_multiple_def Let_def P_def [symmetric] q m T t)
  qed
qed


lemma float_index_floor:
  fixes n m K D :: nat
  assumes c: "D * m + 8 = K * 2 ^ 53" and K: "17 \<le> K" "K < D" and D: "D \<le> 100"
    and n: "n < 2 ^ 45"
  shows "float_index n m = K * n div D"
proof (cases "n = 0")
  case True
  then show ?thesis
    by (simp add: float_index_def round_53_def round_to_multiple_def bit_length.simps [of 0])
next
  case False
  then have npos: "0 < n" by simp
  define B :: nat where "B = 2 ^ 53"
  define N where "N = n * m"
  define s where "s = bit_length N - 53"
  define P :: nat where "P = 2 ^ s"
  define R where "R = round_to_multiple N s"
  define k where "k = K * n div D"
  define f where "f = K * n mod D"
  have Bn: "B = 9007199254740992" by (simp add: B_def)
  have nn: "n < 35184372088832" using n by simp
  have Dpos: "0 < D" using K by simp
  have Kn: "K * n = D * k + f" by (simp add: k_def f_def)
  have fD: "f < D" using Dpos by (simp add: f_def)
  have "D * m < K * B" using c by (simp add: B_def)
  also have "\<dots> < D * B" using K Bn by simp
  finally have mB: "m < B" by simp
  have mpos: "0 < m"
  proof (rule ccontr)
    assume "\<not> 0 < m"
    then have "m = 0" by simp
    with c have "K * B = 8" by (simp add: B_def)
    moreover have "17 * B \<le> K * B" using K by (intro mult_le_mono1)
    ultimately show False using Bn by simp
  qed
  have Npos: "0 < N" using npos mpos by (simp add: N_def)
  have NB: "N < n * B" using mB npos by (simp add: N_def)
  have "D * N + 8 * n = n * (D * m + 8)" by (simp add: N_def algebra_simps)
  also have "\<dots> = B * (K * n)" by (simp add: c B_def)
  also have "\<dots> = B * (D * k) + B * f" by (simp add: Kn algebra_simps)
  finally have DN: "D * N + 8 * n = B * (D * k) + B * f" .
  from bit_length_bounds [OF Npos]
  have lo: "2 ^ (bit_length N - 1) \<le> N" and hi: "N < 2 ^ bit_length N" by simp_all
  have F12: "P < 2 * n \<and> N < P * B"
  proof (cases "bit_length N \<le> 53")
    case True
    then have "s = 0" by (simp add: s_def)
    then have "P = 1" by (simp add: P_def)
    moreover have "(2 :: nat) ^ bit_length N \<le> 2 ^ 53"
      using True by (intro power_increasing) simp_all
    ultimately show ?thesis using hi npos by (simp add: B_def)
  next
    case False
    then have bl: "bit_length N = s + 53" by (simp add: s_def)
    have "P * 2 ^ 52 = 2 ^ (bit_length N - 1)"
      by (simp add: P_def bl power_add)
    with lo NB have "P * 2 ^ 52 < n * B" by simp
    then have "P * 2 ^ 52 < (2 * n) * 2 ^ 52" by (simp add: B_def)
    then have "P < 2 * n" by (simp only: mult_less_cancel2)
    moreover have "N < P * B" using hi by (simp add: bl P_def B_def power_add)
    ultimately show ?thesis by simp
  qed
  then have F1: "P < 2 * n" and F2: "N < P * B" by simp_all
  from round_to_multiple_error [of N s]
  have E1: "2 * R \<le> 2 * N + P" and E2: "2 * N \<le> 2 * R + P"
    by (simp_all add: R_def P_def)
  have DP: "D * P \<le> 2 * (D * n)" using F1 by (simp add: mult_le_mono2 flip: mult.assoc mult.left_commute)
  have Dn: "D * n \<le> 100 * n" using D by (intro mult_le_mono1)
  have "R div B = k"
  proof (cases "f = 0")
    case False
    then have "1 \<le> f" by simp
    then have V1: "B \<le> B * f" by simp
    have "f + 1 \<le> D" using fD by simp
    then have "B * (f + 1) \<le> B * D" by (intro mult_le_mono2)
    then have V2: "B * f + B \<le> B * D" by (simp add: algebra_simps)
    have X1: "2 * (D * N) \<le> 2 * (D * R) + D * P"
      using mult_le_mono2 [OF E2, of D] by (simp add: algebra_simps)
    have X2: "2 * (D * R) \<le> 2 * (D * N) + D * P"
      using mult_le_mono2 [OF E1, of D] by (simp add: algebra_simps)
    have "B * (D * k) < D * R"
      using X1 DP Dn DN V1 Bn nn by linarith
    then have "D * (B * k) < D * R" by (simp add: algebra_simps)
    then have low: "B * k < R" by simp
    have "D * R < B * (D * k) + B * D"
      using X2 DP Dn DN V2 Bn nn by linarith
    then have "D * R < D * (B * Suc k)" by (simp add: algebra_simps)
    then have up: "R < B * Suc k" by simp
    from low up show ?thesis by (intro div_nat_eqI) simp_all
  next
    case True
    with DN have DN0: "D * N + 8 * n = B * (D * k)" by simp
    from True Kn have Kn0: "K * n = D * k" by simp
    have "(2 :: nat) ^ s < 2 ^ 46" using F1 nn by (simp add: P_def)
    then have "s < 46" by (simp only: power_strict_increasing_iff)
    then have "s \<le> 53" by simp
    then have "(2 :: nat) ^ s dvd 2 ^ 53" by (rule le_imp_power_dvd)
    then have "2 ^ s dvd B" by (simp only: B_def)
    then have dvd: "2 ^ s dvd B * k" by (rule dvd_mult2)
    have comm: "D * (B * k) = B * (D * k)" by (simp only: mult.left_commute)
    with DN0 have "D * N \<le> D * (B * k)" by linarith
    then have le: "N \<le> B * k" using Dpos by simp
    have kP: "k \<le> P"
    proof (rule ccontr)
      assume "\<not> k \<le> P"
      then have "P + 1 \<le> k" by simp
      then have "B * (D * (P + 1)) \<le> B * (D * k)" by (intro mult_le_mono2)
      then have a: "B * (D * P) + B * D \<le> B * (D * k)" by (simp add: algebra_simps)
      have "D * N < D * (P * B)" using F2 Dpos by simp
      then have b: "D * N < B * (D * P)" by (simp add: algebra_simps)
      have "B * 1 \<le> B * D" using Dpos by (intro mult_le_mono2) simp
      then have "B \<le> B * D" by simp
      with a b DN0 Bn nn show False by linarith
    qed
    have "17 * n \<le> K * n" using K by (intro mult_le_mono1)
    also have "\<dots> = D * k" by (rule Kn0)
    also have "\<dots> \<le> D * P" using kP by (intro mult_le_mono2)
    finally have "16 * n < D * P" using npos by simp
    moreover have "D * (2 * (B * k - N)) = 16 * n"
    proof -
      have "D * (B * k - N) = D * (B * k) - D * N" by (rule diff_mult_distrib2)
      also have "\<dots> = 8 * n" using DN0 comm by linarith
      finally show ?thesis by simp
    qed
    ultimately have "D * (2 * (B * k - N)) < D * P" by (simp only:)
    then have "2 * (B * k - N) < P" by (simp only: mult_less_cancel1)
    then have "2 * (B * k - N) < 2 ^ s" by (simp only: P_def)
    from round_to_multiple_exact [OF dvd le this] have "R = B * k" by (simp only: R_def)
    moreover have "0 < B" by (simp add: Bn)
    ultimately show ?thesis by simp
  qed
  then show ?thesis
    by (simp add: float_index_def round_53_def R_def s_def N_def B_def k_def)
qed

lemma float_index_0_95: "n < 2 ^ 45 \<Longrightarrow> float_index n double_0_95 = 19 * n div 20"
  by (rule float_index_floor) (simp_all add: double_0_95_def)

lemma float_index_0_99: "n < 2 ^ 45 \<Longrightarrow> float_index n double_0_99 = 99 * n div 100"
  by (rule float_index_floor) (simp_all add: double_0_99_def)


lemma bit_length_numeral [simp]:
  "bit_length 0 = 0"
  "bit_length (Suc 0) = Suc 0"
  "bit_length (numeral Num.One) = Suc 0"
  "bit_length (numeral (Num.Bit0 k)) = Suc (bit_length (numeral k))"
  "bit_length (numeral (Num.Bit1 k)) = Suc (bit_length (numeral k))"
proof -
  show "bit_length 0 = 0" by (simp add: bit_length.simps [of 0])
  then show "bit_length (Suc 0) = Suc 0" by (simp add: bit_length.simps [of "Suc 0"])
  then show "bit_length (numeral Num.One) = Suc 0" by simp
  have "numeral (Num.Bit0 k) div 2 = (numeral k :: nat)" by simp
  then show "bit_length (numeral (Num.Bit0 k)) = Suc (bit_length (numeral k))"
    by (simp add: bit_length.simps [of "numeral (Num.Bit0 k)"])
  have "numeral (Num.Bit1 k) div 2 = (numeral k :: nat)" by simp
  then show "bit_length (numeral (Num.Bit1 k)) = Suc (bit_length (numeral k))"
    by (simp add: bit_length.simps [of "numeral (Num.Bit1 k)"])
qed

text \<open>
  The bound is not idle: at a length near \<open>2 ^ 47\<close> the double product of 0.99 rounds up
  across an integer.
\<close>

lemma float_index_beyond:
  "float_index 161113560664701 double_0_99 = 159502425058054
   \<and> 99 * 161113560664701 div 100 = (159502425058053 :: nat)"
  by (simp add: float_index_def round_53_def round_to_multiple_def double_0_99_def Let_def)

lemma int_mul_fraction:
  "int_mul n (of_int a / of_int b) = a * int n div b"
proof -
  have "of_nat n * (of_int a / of_int b :: rat) = of_int (a * int n) / of_int b" by simp
  then show ?thesis unfolding int_mul_def by (simp only: floor_divide_of_int_eq)
qed

text \<open>
  Below \<open>2 ^ 45\<close> elements, more than a process can hold in a list, the index that Python
  computes in double precision is the index of the exact product.
\<close>

lemma float_index_int_mul:
  assumes "n < 2 ^ 45"
  shows "int (float_index n double_0_95) = int_mul n (95 / 100)"
    and "int (float_index n double_0_99) = int_mul n (99 / 100)"
proof -
  have "int_mul n (95 / 100) = int_mul n (of_int 19 / of_int 20)" by simp
  also have "\<dots> = 19 * int n div 20" by (rule int_mul_fraction)
  also have "\<dots> = int (19 * n div 20)" by (simp add: zdiv_int)
  finally show "int (float_index n double_0_95) = int_mul n (95 / 100)"
    using float_index_0_95 [OF assms] by simp
  have "int_mul n (99 / 100) = int_mul n (of_int 99 / of_int 100)" by simp
  also have "\<dots> = 99 * int n div 100" by (rule int_mul_fraction)
  also have "\<dots> = int (99 * n div 100)" by (simp add: zdiv_int)
  finally show "int (float_index n double_0_99) = int_mul n (99 / 100)"
    using float_index_0_99 [OF assms] by simp
qed

subsection \<open>Percentile execution times\<close>

lemma sort_Nil_iff [simp]: "sort xs = [] \<longleftrightarrow> xs = []"
  by (metis length_sort length_0_conv)

lemma time_query_positive_times: "time_query rows = sort (positive_times rows)"
  by (simp add: time_query_def positive_times_def filter_map comp_def)

lemma half_floor: "nat \<lfloor>(50 / 100 :: rat) * of_nat n\<rfloor> = n div 2"
proof -
  have "(50 / 100 :: rat) * of_nat n = of_int (int n) / of_int 2" by simp
  then have "\<lfloor>(50 / 100 :: rat) * of_nat n\<rfloor> = int n div 2"
    by (simp only: floor_divide_of_int_eq)
  then show ?thesis by (simp add: nat_div_distrib)
qed

subsection \<open>Windows and groups\<close>

lemma overview_rows_closed:
  "overview_rows db now uid start_arg end_arg =
     closed_rows db uid (overview_start now start_arg end_arg) (overview_end now end_arg)"
  unfolding overview_rows_def closed_rows_def
  by (rule filter_cong) (auto simp: overview_filters_def in_scope_def)

lemma previous_rows_baseline:
  "previous_rows db now uid start_arg end_arg =
     baseline_rows db uid (overview_start now start_arg end_arg) (overview_end now end_arg)"
  unfolding previous_rows_def baseline_rows_def half_open_rows_def Let_def
  by (rule filter_cong) (auto simp: prev_filters_def in_scope_def)

lemma or0_sql_sum: "or0 (sql_sum xs) = sum_list xs"
  by (simp add: sql_sum_def or0_def)

lemma or0_sql_avg: "or0 (sql_avg (map execution_time_ms rows)) = mean_time rows"
  by (simp add: sql_avg_def or0_def mean_time_def)

lemma sum_count_if: "sum_list (map (\<lambda>e. count_if (P e)) rows) = int (length (filter P rows))"
  by (induction rows) (simp_all add: count_if_def)

lemma success_rate_percentage:
  "(if int (length rows) > 0
    then of_int (or0 (sql_sum (map (\<lambda>e. count_if (status e = Status_success)) rows)))
         / of_int (int (length rows)) * 100
    else 0) = success_percentage rows"
  by (simp add: success_percentage_def sql_sum_def or0_def sum_count_if)

lemma guarded_success_percentage:
  "guarded_percentage
     (of_int (or0 (sql_sum (map (\<lambda>e. count_if (status e = Status_success)) rows))))
     (of_int (int (length rows))) = Inr (success_percentage rows)"
  by (simp add: guarded_percentage_eq success_percentage_def sql_sum_def or0_def sum_count_if)

lemma metrics_query_rows:
  "m_total (metrics_query rows) = int (length rows)"
  "or0 (m_successful (metrics_query rows)) = int (length (successes rows))"
  "or0 (m_failed (metrics_query rows)) = int (length (filter (\<lambda>e. status e = Status_failure) rows))"
  "or0 (m_avg_time (metrics_query rows)) = mean_time rows"
  "or0 (m_input_tokens (metrics_query rows)) = sum_list (map input_tokens rows)"
  "or0 (m_output_tokens (metrics_query rows)) = sum_list (map output_tokens rows)"
  "or0 (m_total_tokens (metrics_query rows)) = sum_list (map total_tokens rows)"
  "or0 (m_total_cost (metrics_query rows)) = cost_of rows"
  by (simp_all add: metrics_query_def or0_sql_sum or0_sql_avg sum_count_if successes_def
      cost_of_def)

lemma prev_query_rows:
  "pm_total (prev_query rows) = int (length rows)"
  "or0 (pm_successful (prev_query rows)) = int (length (successes rows))"
  "or0 (pm_avg_time (prev_query rows)) = mean_time rows"
  "or0 (pm_total_cost (prev_query rows)) = cost_of rows"
  by (simp_all add: prev_query_def or0_sql_sum or0_sql_avg sum_count_if successes_def
      cost_of_def)

lemma success_percentage_code:
  "(if int (length rows) > 0
    then of_int (int (length (successes rows))) / of_int (int (length rows)) * 100
    else 0) = success_percentage rows"
  by (simp add: success_percentage_def successes_def)

lemma group_by_same:
  "kg \<in> set (group_by key rows) \<Longrightarrow>
     \<exists>e \<in> set rows. fst kg = key e \<and> snd kg = same_by key e rows"
  by (auto simp: group_by_def same_by_def)

lemma length_group_by: "length (group_by key rows) = card (key ` set rows)"
  by (simp add: group_by_def length_remdups_card_conv)

lemma map_res_length: "map_res f xs = Inr ys \<Longrightarrow> length ys = length xs"
  by (drule map_res_Inr_nth) (simp add: list_all2_lengthD)

lemma map_res_Inr_set:
  "map_res f xs = Inr ys \<Longrightarrow> y \<in> set ys \<Longrightarrow> \<exists>x \<in> set xs. f x = Inr y"
proof (induction xs arbitrary: ys)
  case Nil
  then show ?case by simp
next
  case (Cons x xs)
  then show ?case
    by (auto simp: bind_res_def split: sum.splits)
qed

subsection \<open>The overview over the rows of its window\<close>

text \<open>
  The overview of a request in range, each field over the rows of the closed window and
  of the window before it.
\<close>

lemma overview_fields:
  fixes db now uid start_arg end_arg
  defines "rows \<equiv> closed_rows db uid (overview_start now start_arg end_arg)
      (overview_end now end_arg)"
    and "base \<equiv> baseline_rows db uid (overview_start now start_arg end_arg)
      (overview_end now end_arg)"
    and "period_length \<equiv> overview_end now end_arg - overview_start now start_arg end_arg"
    and "ov \<equiv> projr (get_overview db now uid start_arg end_arg)"
  assumes range: "overview_in_range now start_arg end_arg"
  shows "get_overview db now uid start_arg end_arg = Inr ov"
    and "map_res top_agent_dto (top_agents_query rows) = Inr (top_agents ov)"
    and "map_res (cost_breakdown_dto (cost_of rows)) (model_cost_query rows)
          = Inr (cost_by_model ov)"
    and "total_executions ov = int (length rows)"
    and "successful_executions ov = int (length (successes rows))"
    and "failed_executions ov = int (length (filter (\<lambda>e. status e = Status_failure) rows))"
    and "success_rate ov = success_percentage rows"
    and "avg_execution_time_ms ov = mean_time rows"
    and "p50_execution_time_ms ov =
         of_int (if time_query rows = [] then 0
                 else time_query rows ! (length (time_query rows) div 2))"
    and "p95_execution_time_ms ov =
         of_int (if time_query rows = [] then 0
                 else time_query rows ! nat (int_mul (length (time_query rows)) (95 / 100)))"
    and "p99_execution_time_ms ov =
         of_int (if time_query rows = [] then 0
                 else time_query rows ! nat (int_mul (length (time_query rows)) (99 / 100)))"
    and "total_input_tokens ov = sum_list (map input_tokens rows)"
    and "total_output_tokens ov = sum_list (map output_tokens rows)"
    and "ov_total_tokens ov = sum_list (map total_tokens rows)"
    and "total_cost_usd ov = cost_of rows"
    and "estimated_monthly_cost_usd ov =
         (if days period_length = 1 then cost_of rows * 30
          else cost_of rows * 30 / of_int (max (days period_length) 1))"
    and "executions_change_percent ov =
         (if int (length base) = 0 then None
          else Some ((of_int (int (length rows)) - of_int (int (length base)))
                     / of_int (int (length base)) * 100))"
    and "execution_time_change_percent ov =
         (if mean_time base = 0 then None
          else Some ((mean_time rows - mean_time base) / mean_time base * 100))"
    and "success_rate_change_percent ov =
         (if success_percentage base = 0 then None
          else Some ((success_percentage rows - success_percentage base)
                     / success_percentage base * 100))"
    and "cost_change_percent ov =
         (if cost_of base = 0 then None
          else Some ((cost_of rows - cost_of base) / cost_of base * 100))"
  using range top_agents_total [of rows] cost_by_model_total [of "cost_of rows" rows]
    get_overview_eq [of db now uid start_arg end_arg,
      unfolded overview_rows_closed previous_rows_baseline metrics_query_rows prev_query_rows
        success_percentage_code,
      folded rows_def base_def period_length_def]
  by (auto simp: ov_def)

lemma overview_overflow:
  "\<not> overview_in_range now start_arg end_arg \<Longrightarrow>
     get_overview db now uid start_arg end_arg = Inl OverflowError"
  by (simp add: get_overview_eq)

subsection \<open>Percentile execution times\<close>

lemma nearest_rank_time_query:
  "nearest_rank p (positive_times rows) =
      (if time_query rows = [] then 0
       else time_query rows ! nat (int_mul (length (time_query rows)) p))"
  by (simp add: nearest_rank_def time_query_positive_times Let_def int_mul_def mult.commute)

lemma nearest_rank_half:
  "nearest_rank (50 / 100) (positive_times rows) =
      (if time_query rows = [] then 0
       else time_query rows ! (length (time_query rows) div 2))"
  unfolding nearest_rank_def Let_def half_floor
  by (simp add: time_query_positive_times)

text \<open>
  C1. For every table and every request in range the overview returns, and its p50, p95
  and p99 execution times are the nearest-rank values of the specification: of the
  execution times greater than 0 among the rows of the scope in the window of the request,
  sorted ascending into an array of length \<open>n\<close>, the elements at index \<open>\<lfloor>0.50 n\<rfloor>\<close>,
  \<open>\<lfloor>0.95 n\<rfloor>\<close> and \<open>\<lfloor>0.99 n\<rfloor>\<close>, and 0 when there is no such time. The subscripts of
  the code raise outside the list, so the result also says that each index lies inside it.
  A request out of range, whose previous period or default start is no
  \<^verbatim>\<open>datetime\<close>, raises \<^verbatim>\<open>OverflowError\<close> and has no percentile. The products are
  exact here; by \<open>float_index_int_mul\<close> the double-precision products of the code give the
  same indices for every list below \<open>2 ^ 45\<close> elements.
\<close>

theorem overview_percentiles:
  fixes db now uid start_arg end_arg
  defines "rows \<equiv> closed_rows db uid (overview_start now start_arg end_arg)
      (overview_end now end_arg)"
  shows "if overview_in_range now start_arg end_arg
     then \<exists>ov. get_overview db now uid start_arg end_arg = Inr ov
       \<and> p50_execution_time_ms ov = of_int (nearest_rank (50 / 100) (positive_times rows))
       \<and> p95_execution_time_ms ov = of_int (nearest_rank (95 / 100) (positive_times rows))
       \<and> p99_execution_time_ms ov = of_int (nearest_rank (99 / 100) (positive_times rows))
     else get_overview db now uid start_arg end_arg = Inl OverflowError"
proof (cases "overview_in_range now start_arg end_arg")
  case True
  note f = overview_fields [OF True, of db uid, folded rows_def]
  have "\<exists>ov. get_overview db now uid start_arg end_arg = Inr ov
       \<and> p50_execution_time_ms ov = of_int (nearest_rank (50 / 100) (positive_times rows))
       \<and> p95_execution_time_ms ov = of_int (nearest_rank (95 / 100) (positive_times rows))
       \<and> p99_execution_time_ms ov = of_int (nearest_rank (99 / 100) (positive_times rows))"
    unfolding nearest_rank_half
    unfolding nearest_rank_time_query
    by (intro exI conjI) (rule f(1) f(9) f(10) f(11))+
  with True show ?thesis by simp
next
  case False
  then show ?thesis by (simp add: overview_overflow)
qed

theorem overview_percentiles_witness:
  "(\<exists>ov. get_overview sample_db sample_now (Some ''u1'') None None = Inr ov
      \<and> p50_execution_time_ms ov = 120
      \<and> p95_execution_time_ms ov = 120
      \<and> p99_execution_time_ms ov = 120)
   \<and> get_overview sample_db sample_now (Some ''u1'') (Some 0) (Some (timedelta_days 1))
       = Inl OverflowError"
proof -
  have r: "overview_in_range sample_now None None"
    and o: "\<not> overview_in_range sample_now (Some 0) (Some (timedelta_days 1))"
    by code_simp+
  have n: "nearest_rank (50 / 100) (positive_times (closed_rows sample_db (Some ''u1'')
        (overview_start sample_now None None) (overview_end sample_now None))) = 120"
    "nearest_rank (95 / 100) (positive_times (closed_rows sample_db (Some ''u1'')
        (overview_start sample_now None None) (overview_end sample_now None))) = 120"
    "nearest_rank (99 / 100) (positive_times (closed_rows sample_db (Some ''u1'')
        (overview_start sample_now None None) (overview_end sample_now None))) = 120"
    by code_simp+
  from overview_percentiles [of sample_now None None sample_db "Some ''u1''"] r n
  have "\<exists>ov. get_overview sample_db sample_now (Some ''u1'') None None = Inr ov
      \<and> p50_execution_time_ms ov = 120
      \<and> p95_execution_time_ms ov = 120
      \<and> p99_execution_time_ms ov = 120"
    by simp
  moreover from overview_percentiles [of sample_now "Some 0" "Some (timedelta_days 1)" sample_db
      "Some ''u1''"] o
  have "get_overview sample_db sample_now (Some ''u1'') (Some 0) (Some (timedelta_days 1))
       = Inl OverflowError"
    by simp
  ultimately show ?thesis by blast
qed

subsection \<open>Comparison with the previous period\<close>

text \<open>
  C3. For a request in range, the baseline of the overview is the window
  \<open>[start - length, start)\<close>, as long as the current window (\<open>length = end - start\<close>),
  of the same scope. Each of the four percent-change fields compares the value of the
  current window with the baseline's: the count of executions, the mean execution time
  (0 when there is none), the success rate and the total cost. It is
  \<open>(current - previous) / previous * 100\<close> when the previous value is not 0 and null when
  it is 0: \<open>percent_change\<close> is \<open>None\<close> there, never 0 and never a quotient by 0. The
  current values are the ones the overview reports. A request whose baseline would start
  before the first \<^verbatim>\<open>datetime\<close> raises \<^verbatim>\<open>OverflowError\<close>.
\<close>

theorem previous_period_comparison:
  fixes db now uid start_arg end_arg
  defines "rows \<equiv> closed_rows db uid (overview_start now start_arg end_arg)
      (overview_end now end_arg)"
    and "base \<equiv> baseline_rows db uid (overview_start now start_arg end_arg)
      (overview_end now end_arg)"
  shows "if overview_in_range now start_arg end_arg
     then \<exists>ov. get_overview db now uid start_arg end_arg = Inr ov
       \<and> total_executions ov = int (length rows)
       \<and> avg_execution_time_ms ov = mean_time rows
       \<and> success_rate ov = success_percentage rows
       \<and> total_cost_usd ov = cost_of rows
       \<and> executions_change_percent ov =
           percent_change (of_int (total_executions ov)) (of_nat (length base))
       \<and> execution_time_change_percent ov =
           percent_change (avg_execution_time_ms ov) (mean_time base)
       \<and> success_rate_change_percent ov =
           percent_change (success_rate ov) (success_percentage base)
       \<and> cost_change_percent ov = percent_change (total_cost_usd ov) (cost_of base)
     else get_overview db now uid start_arg end_arg = Inl OverflowError"
proof (cases "overview_in_range now start_arg end_arg")
  case True
  note f = overview_fields [OF True, of db uid, folded rows_def base_def]
  define ov where "ov = projr (get_overview db now uid start_arg end_arg)"
  have c1: "executions_change_percent ov =
      percent_change (of_int (total_executions ov)) (of_nat (length base))"
    unfolding ov_def f(17) f(4) by (simp add: percent_change_def)
  have c2: "execution_time_change_percent ov =
      percent_change (avg_execution_time_ms ov) (mean_time base)"
    unfolding ov_def f(18) f(8) percent_change_def ..
  have c3: "success_rate_change_percent ov =
      percent_change (success_rate ov) (success_percentage base)"
    unfolding ov_def f(19) f(7) percent_change_def ..
  have c4: "cost_change_percent ov = percent_change (total_cost_usd ov) (cost_of base)"
    unfolding ov_def f(20) f(15) percent_change_def ..
  have "\<exists>ov. get_overview db now uid start_arg end_arg = Inr ov
       \<and> total_executions ov = int (length rows)
       \<and> avg_execution_time_ms ov = mean_time rows
       \<and> success_rate ov = success_percentage rows
       \<and> total_cost_usd ov = cost_of rows
       \<and> executions_change_percent ov =
           percent_change (of_int (total_executions ov)) (of_nat (length base))
       \<and> execution_time_change_percent ov =
           percent_change (avg_execution_time_ms ov) (mean_time base)
       \<and> success_rate_change_percent ov =
           percent_change (success_rate ov) (success_percentage base)
       \<and> cost_change_percent ov = percent_change (total_cost_usd ov) (cost_of base)"
    by (intro exI conjI)
      (rule f(1) f(4) f(8) f(7) f(15) c1 [unfolded ov_def] c2 [unfolded ov_def]
        c3 [unfolded ov_def] c4 [unfolded ov_def])+
  with True show ?thesis by simp
next
  case False
  then show ?thesis by (simp add: overview_overflow)
qed

theorem previous_period_comparison_witness:
  "(\<exists>ov. get_overview sample_db sample_now (Some ''u2'') None None = Inr ov
      \<and> executions_change_percent ov = None
      \<and> execution_time_change_percent ov = None
      \<and> success_rate_change_percent ov = None
      \<and> cost_change_percent ov = None)
   \<and> (\<exists>ov. get_overview sample_db sample_now (Some ''u1'') None None = Inr ov
      \<and> executions_change_percent ov = Some 200
      \<and> execution_time_change_percent ov = Some (- (100 / 3))
      \<and> success_rate_change_percent ov = Some (- (100 / 3))
      \<and> cost_change_percent ov = Some 200)
   \<and> get_overview sample_db sample_now (Some ''u1'') (Some 0) (Some (timedelta_days 1))
       = Inl OverflowError"
proof -
  have r: "overview_in_range sample_now None None"
    and o: "\<not> overview_in_range sample_now (Some 0) (Some (timedelta_days 1))"
    by code_simp+
  have none: "baseline_rows sample_db (Some ''u2'') (overview_start sample_now None None)
      (overview_end sample_now None) = []"
    by code_simp
  have base: "length (baseline_rows sample_db (Some ''u1'') (overview_start sample_now None None)
      (overview_end sample_now None)) = 1"
    "mean_time (baseline_rows sample_db (Some ''u1'') (overview_start sample_now None None)
      (overview_end sample_now None)) = 100"
    "success_percentage (baseline_rows sample_db (Some ''u1'') (overview_start sample_now None None)
      (overview_end sample_now None)) = 100"
    "cost_of (baseline_rows sample_db (Some ''u1'') (overview_start sample_now None None)
      (overview_end sample_now None)) = 1"
    by code_simp+
  have cur: "int (length (closed_rows sample_db (Some ''u1'') (overview_start sample_now None None)
      (overview_end sample_now None))) = 3"
    "mean_time (closed_rows sample_db (Some ''u1'') (overview_start sample_now None None)
      (overview_end sample_now None)) = 200 / 3"
    "success_percentage (closed_rows sample_db (Some ''u1'') (overview_start sample_now None None)
      (overview_end sample_now None)) = 200 / 3"
    "cost_of (closed_rows sample_db (Some ''u1'') (overview_start sample_now None None)
      (overview_end sample_now None)) = 3"
    by code_simp+
  have u2: "\<exists>ov. get_overview sample_db sample_now (Some ''u2'') None None = Inr ov
      \<and> executions_change_percent ov = None
      \<and> execution_time_change_percent ov = None
      \<and> success_rate_change_percent ov = None
      \<and> cost_change_percent ov = None"
    using previous_period_comparison [of sample_now None None sample_db "Some ''u2''"] r
    unfolding none
    by (simp add: percent_change_def success_percentage_def mean_time_def cost_of_def) blast
  have u1: "\<exists>ov. get_overview sample_db sample_now (Some ''u1'') None None = Inr ov
      \<and> executions_change_percent ov = Some 200
      \<and> execution_time_change_percent ov = Some (- (100 / 3))
      \<and> success_rate_change_percent ov = Some (- (100 / 3))
      \<and> cost_change_percent ov = Some 200"
    using previous_period_comparison [of sample_now None None sample_db "Some ''u1''"] r
    unfolding base cur
    by (simp only: if_True)
      (elim exE conjE, intro exI conjI, assumption, simp_all add: percent_change_def)
  have ov: "get_overview sample_db sample_now (Some ''u1'') (Some 0) (Some (timedelta_days 1))
       = Inl OverflowError"
    using previous_period_comparison [of sample_now "Some 0" "Some (timedelta_days 1)" sample_db
      "Some ''u1''"] o
    by simp
  from u2 u1 ov show ?thesis by blast
qed

subsection \<open>The window of the overview\<close>

lemma default_window_request:
  assumes "valid_datetime now"
  shows "get_overview db now uid None None =
       get_overview db now uid (Some (now - timedelta_hours 24)) (Some now)"
proof (cases "valid_datetime (now - timedelta_hours 24)")
  case True
  then show ?thesis
    by (simp add: get_overview_def default_start_def default_end_def datetime_sub_def)
next
  case False
  with assms have "\<not> valid_datetime (now - timedelta_hours 24 - timedelta_hours 24)"
    by (simp add: valid_datetime_def timedelta_hours_def)
  then have "\<not> overview_in_range now (Some (now - timedelta_hours 24)) (Some now)"
    by (simp add: overview_in_range_def overview_start_def overview_end_def window_start_def
        default_end_def)
  then have "get_overview db now uid (Some (now - timedelta_hours 24)) (Some now)
      = Inl OverflowError"
    by (rule overview_overflow)
  moreover from False have "\<not> overview_in_range now None None"
    by (simp add: overview_in_range_def default_in_range_def default_end_def)
  then have "get_overview db now uid None None = Inl OverflowError"
    by (rule overview_overflow)
  ultimately show ?thesis by simp
qed

text \<open>
  C5, as the code has it. For a request in range the overview aggregates exactly the
  executions, of the scope, whose \<open>started_at\<close> lies in the closed window
  \<open>[start, end]\<close>: an execution started at \<open>end\<close> is included. With both dates given the
  window is the given one; with no date it is the 24 hours ending now, and the overview is
  that of the request for these 24 hours. A request out of range raises
  \<^verbatim>\<open>OverflowError\<close>.
\<close>

theorem overview_window:
  fixes db now uid start_arg end_arg
  defines "rows \<equiv> closed_rows db uid (overview_start now start_arg end_arg)
      (overview_end now end_arg)"
  shows "(if overview_in_range now start_arg end_arg
     then \<exists>ov. get_overview db now uid start_arg end_arg = Inr ov
       \<and> total_executions ov = int (length rows)
       \<and> successful_executions ov = int (length (filter (\<lambda>e. status e = Status_success) rows))
       \<and> failed_executions ov = int (length (filter (\<lambda>e. status e = Status_failure) rows))
       \<and> avg_execution_time_ms ov = mean_time rows
       \<and> total_input_tokens ov = sum_list (map input_tokens rows)
       \<and> total_output_tokens ov = sum_list (map output_tokens rows)
       \<and> ov_total_tokens ov = sum_list (map total_tokens rows)
       \<and> total_cost_usd ov = sum_list (map cost_usd rows)
     else get_overview db now uid start_arg end_arg = Inl OverflowError)
   \<and> overview_start now (Some s) (Some e) = s
   \<and> overview_end now (Some e) = e
   \<and> overview_start now None None = now - timedelta_hours 24
   \<and> overview_end now None = now
   \<and> (valid_datetime now \<longrightarrow>
        get_overview db now uid None None =
          get_overview db now uid (Some (now - timedelta_hours 24)) (Some now))"
proof -
  have "if overview_in_range now start_arg end_arg
     then \<exists>ov. get_overview db now uid start_arg end_arg = Inr ov
       \<and> total_executions ov = int (length rows)
       \<and> successful_executions ov = int (length (filter (\<lambda>e. status e = Status_success) rows))
       \<and> failed_executions ov = int (length (filter (\<lambda>e. status e = Status_failure) rows))
       \<and> avg_execution_time_ms ov = mean_time rows
       \<and> total_input_tokens ov = sum_list (map input_tokens rows)
       \<and> total_output_tokens ov = sum_list (map output_tokens rows)
       \<and> ov_total_tokens ov = sum_list (map total_tokens rows)
       \<and> total_cost_usd ov = sum_list (map cost_usd rows)
     else get_overview db now uid start_arg end_arg = Inl OverflowError"
  proof (cases "overview_in_range now start_arg end_arg")
    case True
    note f = overview_fields [OF True, of db uid, folded rows_def]
    have "\<exists>ov. get_overview db now uid start_arg end_arg = Inr ov
       \<and> total_executions ov = int (length rows)
       \<and> successful_executions ov = int (length (filter (\<lambda>e. status e = Status_success) rows))
       \<and> failed_executions ov = int (length (filter (\<lambda>e. status e = Status_failure) rows))
       \<and> avg_execution_time_ms ov = mean_time rows
       \<and> total_input_tokens ov = sum_list (map input_tokens rows)
       \<and> total_output_tokens ov = sum_list (map output_tokens rows)
       \<and> ov_total_tokens ov = sum_list (map total_tokens rows)
       \<and> total_cost_usd ov = sum_list (map cost_usd rows)"
      by (intro exI conjI)
        (rule f(1) f(4) f(5) [unfolded successes_def] f(6) f(8) f(12) f(13) f(14)
          f(15) [unfolded cost_of_def])+
    with True show ?thesis by simp
  next
    case False
    then show ?thesis by (simp add: overview_overflow)
  qed
  moreover have "overview_start now (Some s) (Some e) = s" "overview_end now (Some e) = e"
    "overview_start now None None = now - timedelta_hours 24" "overview_end now None = now"
    by (simp_all add: overview_start_def overview_end_def window_start_def default_end_def)
  moreover have "valid_datetime now \<longrightarrow>
        get_overview db now uid None None =
          get_overview db now uid (Some (now - timedelta_hours 24)) (Some now)"
    using default_window_request [of now db uid] by blast
  ultimately show ?thesis by (intro conjI) assumption+
qed

text \<open>
  The claim words the window as half-open. One execution started exactly at the end of the
  window: the overview counts it, the half-open window holds no row.
\<close>

theorem overview_window_counterexample:
  "map_sum id total_executions
     (get_overview [sample_execution ''u1'' ''a1'' ''m1'' sample_now Status_success 120 1]
        sample_now (Some ''u1'') (Some (sample_now - timedelta_hours 24)) (Some sample_now))
     = Inr 1
   \<and> length (half_open_rows [sample_execution ''u1'' ''a1'' ''m1'' sample_now Status_success 120 1]
        (Some ''u1'') (sample_now - timedelta_hours 24) sample_now) = 0"
  by code_simp

theorem overview_window_witness:
  "(\<exists>ov. get_overview sample_db sample_now (Some ''u1'') None None = Inr ov
      \<and> total_executions ov = 3 \<and> total_cost_usd ov = 3)
   \<and> get_overview sample_db sample_now (Some ''u1'') None None =
       get_overview sample_db sample_now (Some ''u1'')
         (Some (sample_now - timedelta_hours 24)) (Some sample_now)
   \<and> get_overview sample_db sample_now (Some ''u1'') (Some 0) (Some (timedelta_days 1))
       = Inl OverflowError"
proof -
  have r: "overview_in_range sample_now None None"
    and o: "\<not> overview_in_range sample_now (Some 0) (Some (timedelta_days 1))"
    and v: "valid_datetime sample_now"
    by code_simp+
  have cur: "int (length (closed_rows sample_db (Some ''u1'') (overview_start sample_now None None)
      (overview_end sample_now None))) = 3"
    "sum_list (map cost_usd (closed_rows sample_db (Some ''u1'') (overview_start sample_now None None)
      (overview_end sample_now None))) = 3"
    by code_simp+
  have a: "\<exists>ov. get_overview sample_db sample_now (Some ''u1'') None None = Inr ov
      \<and> total_executions ov = 3 \<and> total_cost_usd ov = 3"
    using overview_window [of sample_now None None sample_db "Some ''u1''"] r
    unfolding cur by (simp only: if_True) blast
  have b: "get_overview sample_db sample_now (Some ''u1'') None None =
       get_overview sample_db sample_now (Some ''u1'')
         (Some (sample_now - timedelta_hours 24)) (Some sample_now)"
    using overview_window [of sample_now None None sample_db "Some ''u1''"] v by blast
  have c: "get_overview sample_db sample_now (Some ''u1'') (Some 0) (Some (timedelta_days 1))
       = Inl OverflowError"
    using overview_window [of sample_now "Some 0" "Some (timedelta_days 1)" sample_db
      "Some ''u1''"] o
    by simp
  from a b c show ?thesis by blast
qed

subsection \<open>The monthly estimate\<close>

lemma days_one_day: "days (timedelta_days 1) = 1"
  by (simp add: days_def timedelta_days_def)

lemma monthly_estimate_code:
  "monthly_estimate cost len =
     (if days len = 1 then cost * 30 else cost * 30 / of_int (max (days len) 1))"
  by (auto simp: monthly_estimate_def days_one_day)

text \<open>
  C6. For a request in range the estimated monthly cost is the total cost of the rows of
  the window times 30 when the window is exactly one day long, and that total cost times 30
  divided by \<open>max(days, 1)\<close> for every other length, \<open>days\<close> being the whole days of
  the window; the total cost is the one the overview reports. A request out of range raises
  \<^verbatim>\<open>OverflowError\<close>.
\<close>

theorem estimated_monthly_cost:
  fixes db now uid start_arg end_arg
  defines "rows \<equiv> closed_rows db uid (overview_start now start_arg end_arg)
      (overview_end now end_arg)"
  shows "if overview_in_range now start_arg end_arg
     then \<exists>ov. get_overview db now uid start_arg end_arg = Inr ov
       \<and> total_cost_usd ov = cost_of rows
       \<and> estimated_monthly_cost_usd ov =
           monthly_estimate (cost_of rows)
             (overview_end now end_arg - overview_start now start_arg end_arg)
     else get_overview db now uid start_arg end_arg = Inl OverflowError"
proof (cases "overview_in_range now start_arg end_arg")
  case True
  note f = overview_fields [OF True, of db uid, folded rows_def]
  have "\<exists>ov. get_overview db now uid start_arg end_arg = Inr ov
       \<and> total_cost_usd ov = cost_of rows
       \<and> estimated_monthly_cost_usd ov =
           monthly_estimate (cost_of rows)
             (overview_end now end_arg - overview_start now start_arg end_arg)"
    unfolding monthly_estimate_code
    by (intro exI conjI) (rule f(1) f(15) f(16))+
  with True show ?thesis by simp
next
  case False
  then show ?thesis by (simp add: overview_overflow)
qed

theorem estimated_monthly_cost_witness:
  "(\<exists>ov. get_overview sample_db sample_now (Some ''u1'') None None = Inr ov
      \<and> total_cost_usd ov = 3 \<and> estimated_monthly_cost_usd ov = 90)
   \<and> (\<exists>ov. get_overview sample_db sample_now (Some ''u1'')
        (Some (sample_now - timedelta_days 10)) (Some sample_now) = Inr ov
      \<and> total_cost_usd ov = 6 \<and> estimated_monthly_cost_usd ov = 18)
   \<and> (\<exists>ov. get_overview sample_db sample_now (Some ''u1'')
        (Some (sample_now - timedelta_hours 3)) (Some sample_now) = Inr ov
      \<and> total_cost_usd ov = 3 \<and> estimated_monthly_cost_usd ov = 90)"
proof -
  have r: "overview_in_range sample_now None None"
    "overview_in_range sample_now (Some (sample_now - timedelta_days 10)) (Some sample_now)"
    "overview_in_range sample_now (Some (sample_now - timedelta_hours 3)) (Some sample_now)"
    by code_simp+
  have c: "cost_of (closed_rows sample_db (Some ''u1'') (overview_start sample_now None None)
      (overview_end sample_now None)) = 3"
    "cost_of (closed_rows sample_db (Some ''u1'')
      (overview_start sample_now (Some (sample_now - timedelta_days 10)) (Some sample_now))
      (overview_end sample_now (Some sample_now))) = 6"
    "cost_of (closed_rows sample_db (Some ''u1'')
      (overview_start sample_now (Some (sample_now - timedelta_hours 3)) (Some sample_now))
      (overview_end sample_now (Some sample_now))) = 3"
    by code_simp+
  have m: "monthly_estimate 3
      (overview_end sample_now None - overview_start sample_now None None) = 90"
    "monthly_estimate 6 (overview_end sample_now (Some sample_now)
      - overview_start sample_now (Some (sample_now - timedelta_days 10)) (Some sample_now)) = 18"
    "monthly_estimate 3 (overview_end sample_now (Some sample_now)
      - overview_start sample_now (Some (sample_now - timedelta_hours 3)) (Some sample_now)) = 90"
    by code_simp+
  have a: "\<exists>ov. get_overview sample_db sample_now (Some ''u1'') None None = Inr ov
      \<and> total_cost_usd ov = 3 \<and> estimated_monthly_cost_usd ov = 90"
    using estimated_monthly_cost [of sample_now None None sample_db "Some ''u1''"] r(1)
    unfolding c m by (simp only: if_True)
  have b: "\<exists>ov. get_overview sample_db sample_now (Some ''u1'')
        (Some (sample_now - timedelta_days 10)) (Some sample_now) = Inr ov
      \<and> total_cost_usd ov = 6 \<and> estimated_monthly_cost_usd ov = 18"
    using estimated_monthly_cost [of sample_now "Some (sample_now - timedelta_days 10)"
      "Some sample_now" sample_db "Some ''u1''"] r(2)
    unfolding c m by (simp only: if_True)
  have d: "\<exists>ov. get_overview sample_db sample_now (Some ''u1'')
        (Some (sample_now - timedelta_hours 3)) (Some sample_now) = Inr ov
      \<and> total_cost_usd ov = 3 \<and> estimated_monthly_cost_usd ov = 90"
    using estimated_monthly_cost [of sample_now "Some (sample_now - timedelta_hours 3)"
      "Some sample_now" sample_db "Some ''u1''"] r(3)
    unfolding c m by (simp only: if_True)
  from a b d show ?thesis by blast
qed

subsection \<open>The cost forecast\<close>

lemma get_cost_forecast_eq:
  fixes db now uid
  defines "cur \<equiv> forecast_current_cost db now uid"
    and "prev \<equiv> forecast_prev_cost db now uid"
  shows "get_cost_forecast db now uid =
    Inr \<lparr> current_period_cost_usd = cur,
          projected_monthly_cost_usd = cur / 7 * 30,
          projected_weekly_cost_usd = cur,
          daily_average_cost_usd = cur / 7,
          cost_trend =
            (if prev > 0
             then (if (cur - prev) / prev * 100 > 10 then ''increasing''
                   else if (cur - prev) / prev * 100 < - 10 then ''decreasing''
                   else ''stable'')
             else ''stable''),
          trend_percentage = (if prev > 0 then (cur - prev) / prev * 100 else 0) \<rparr>"
proof -
  have d7: "py_truediv cur 7 = Inr (cur / 7)"
    by (simp add: py_truediv_def)
  have dp: "py_truediv (cur - prev) prev = Inr ((cur - prev) / prev)" if "prev > 0"
    using that by (simp add: py_truediv_def)
  show ?thesis
  proof (cases "prev > 0")
    case True
    show ?thesis
      unfolding get_cost_forecast_def Let_def cur_def [symmetric] prev_def [symmetric]
      by (simp only: d7 dp [OF True] True if_True bind_res_Inr fst_conv snd_conv)
  next
    case False
    show ?thesis
      unfolding get_cost_forecast_def Let_def cur_def [symmetric] prev_def [symmetric]
      by (simp only: d7 False if_False bind_res_Inr fst_conv snd_conv)
  qed
qed

lemma forecast_current_cost_rows:
  "forecast_current_cost db now uid = cost_of (rows_since db uid (now - timedelta_days 7))"
  unfolding forecast_current_cost_def rows_since_def cost_of_def or0_sql_sum in_scope_def ..

lemma forecast_prev_cost_rows:
  "forecast_prev_cost db now uid =
     cost_of (half_open_rows db uid (now - timedelta_days 14) (now - timedelta_days 7))"
proof -
  have "now - timedelta_days 7 - timedelta_days 7 = now - timedelta_days 14"
    by (simp add: timedelta_days_def)
  then show ?thesis
    unfolding forecast_prev_cost_def half_open_rows_def cost_of_def or0_sql_sum in_scope_def
    by simp
qed

text \<open>
  C7. The forecast compares the cost of the executions started in the last 7 days with the
  cost of the 7 days before them, \<open>[now - 14 days, now - 7 days)\<close>. The trend is
  \<open>increasing\<close> exactly when the reported percent change exceeds 10, \<open>decreasing\<close>
  exactly when it is below -10 and \<open>stable\<close> otherwise. The change is
  \<open>(current - previous) / previous * 100\<close> for a positive previous cost; for a previous
  cost of 0 it is reported as 0 and the trend is \<open>stable\<close>. The daily average is the
  current cost divided by 7 and the monthly projection is the daily average times 30.
\<close>

theorem cost_forecast:
  fixes db now uid
  defines "cur \<equiv> cost_of (rows_since db uid (now - timedelta_days 7))"
    and "prev \<equiv> cost_of (half_open_rows db uid (now - timedelta_days 14) (now - timedelta_days 7))"
  shows "\<exists>f. get_cost_forecast db now uid = Inr f
     \<and> current_period_cost_usd f = cur
     \<and> (cost_trend f = ''increasing'' \<longleftrightarrow> trend_percentage f > 10)
     \<and> (cost_trend f = ''decreasing'' \<longleftrightarrow> trend_percentage f < - 10)
     \<and> (cost_trend f = ''stable'' \<longleftrightarrow> - 10 \<le> trend_percentage f \<and> trend_percentage f \<le> 10)
     \<and> (prev > 0 \<longrightarrow> trend_percentage f = (cur - prev) / prev * 100)
     \<and> (prev = 0 \<longrightarrow> trend_percentage f = 0 \<and> cost_trend f = ''stable'')
     \<and> daily_average_cost_usd f = cur / 7
     \<and> projected_monthly_cost_usd f = daily_average_cost_usd f * 30"
  unfolding cur_def prev_def forecast_current_cost_rows [symmetric] forecast_prev_cost_rows [symmetric]
  by (simp add: get_cost_forecast_eq)

theorem cost_forecast_witness:
  "(\<exists>f. get_cost_forecast sample_db sample_now (Some ''u1'') = Inr f
      \<and> trend_percentage f = 100 \<and> cost_trend f = ''increasing''
      \<and> daily_average_cost_usd f = 4 / 7 \<and> projected_monthly_cost_usd f = 120 / 7)
   \<and> (\<exists>f. get_cost_forecast sample_db sample_now (Some ''u2'') = Inr f
      \<and> trend_percentage f = 0 \<and> cost_trend f = ''stable'')"
proof -
  have c1: "cost_of (rows_since sample_db (Some ''u1'') (sample_now - timedelta_days 7)) = 4"
    and p1: "cost_of (half_open_rows sample_db (Some ''u1'')
        (sample_now - timedelta_days 14) (sample_now - timedelta_days 7)) = 2"
    and p2: "cost_of (half_open_rows sample_db (Some ''u2'')
        (sample_now - timedelta_days 14) (sample_now - timedelta_days 7)) = 0"
    by code_simp+
  have "\<exists>f. get_cost_forecast sample_db sample_now (Some ''u1'') = Inr f
      \<and> trend_percentage f = 100 \<and> cost_trend f = ''increasing''
      \<and> daily_average_cost_usd f = 4 / 7 \<and> projected_monthly_cost_usd f = 120 / 7"
    using cost_forecast [of sample_db sample_now "Some ''u1''"] unfolding c1 p1 by auto
  moreover have "\<exists>f. get_cost_forecast sample_db sample_now (Some ''u2'') = Inr f
      \<and> trend_percentage f = 0 \<and> cost_trend f = ''stable''"
    using cost_forecast [of sample_db sample_now "Some ''u2''"] unfolding p2 by auto
  ultimately show ?thesis by blast
qed

subsection \<open>Pagination\<close>




lemma length_order_by [simp]: "length (order_by sort_by sort_order rows) = length rows"
  by (simp add: order_by_def)

lemma started_at_column: "is_column ''started_at''"
  by (simp add: is_column_def columns_def)

lemma list_paginated_eq:
  assumes "1 \<le> pg" "1 \<le> p" "p \<le> int64_max" "(pg - 1) * p \<le> int64_max"
    and "is_column sort_by \<or> \<not> others sort_by"
  shows "list_paginated others db uid aid atype mname st start_date end_date pg p sort_by
      sort_order =
    Inr \<lparr> items = map summary_dto (take (nat p) (drop (nat ((pg - 1) * p))
              (order_by sort_by sort_order
                (filter (list_filters uid aid atype mname st start_date end_date) db)))),
          total = int (length (filter (list_filters uid aid atype mname st start_date end_date) db)),
          page = pg,
          page_size = p,
          total_pages =
            (int (length (filter (list_filters uid aid atype mname st start_date end_date) db))
              + p - 1) div p \<rparr>"
proof -
  have ord: "ordered others sort_by sort_order rows = Inr (order_by sort_by sort_order rows)"
    for rows
    using assms(5) by (auto simp: ordered_def)
  have "0 \<le> (pg - 1) * p" using assms by simp
  with assms have inside:
    "\<not> ((pg - 1) * p < 0 \<or> p < 0 \<or> int64_max < (pg - 1) * p \<or> int64_max < p)"
    by linarith
  have off: "offset_limit ((pg - 1) * p) p rows =
      Inr (take (nat p) (drop (nat ((pg - 1) * p)) rows))" for rows :: "AgentExecution list"
    by (simp only: offset_limit_def inside if_False)
  have fl: "py_floordiv n p = Inr (n div p)" for n
    using assms by (simp add: py_floordiv_def)
  show ?thesis
    unfolding list_paginated_def Let_def ord off fl bind_res_Inr ..
qed






subsection \<open>Export\<close>

lemma export_filters_closed:
  "filter (list_filters (Some user) None None None None (Some s) (Some e)) db
     = closed_rows db (Some user) s e"
  unfolding closed_rows_def
  by (rule filter_cong) (auto simp: list_filters_def in_scope_def truthy_def)

lemma closed_rows_replicate:
  "closed_rows (replicate n r) uid s e =
     (if closed_rows [r] uid s e = [r] then replicate n r else [])"
  by (simp add: closed_rows_def)

text \<open>
  C9. An export, JSON or CSV, holds at most 10,000 execution records: it is page 1 of the
  listing with page size 10,000, newest first, over the closed window of the request. When
  more than 10,000 executions match, the records after the first 10,000 are left out, while
  \<open>total_records\<close> of the JSON export is the number of all matching executions.
\<close>


theorem export_limit:
  fixes others db now user format period start_arg end_arg
  defines "matching \<equiv> closed_rows db (Some user)
      (fst (request_window now period start_arg end_arg))
      (snd (request_window now period start_arg end_arg))"
  shows "\<exists>out. export_analytics_data others db now user format period start_arg end_arg = Inr out
     \<and> exported out = map summary_dto (take 10000 (order_by ''started_at'' ''desc'' matching))
     \<and> length (exported out) = min 10000 (length matching)
     \<and> length (exported out) \<le> 10000
     \<and> (if format = ''csv'' then out = CsvExport (exported out)
         else out = JsonExport (int (length matching)) (exported out))
     \<and> (10000 < length matching \<longrightarrow> length (exported out) < length matching)"
proof -
  have "list_paginated others db (Some user) None None None None
      (Some (fst (request_window now period start_arg end_arg)))
      (Some (snd (request_window now period start_arg end_arg))) 1 10000 ''started_at'' ''desc''
    = Inr \<lparr> items = map summary_dto (take 10000 (order_by ''started_at'' ''desc'' matching)),
          total = int (length matching), page = 1, page_size = 10000,
          total_pages = (int (length matching) + 10000 - 1) div 10000 \<rparr>"
    by (simp add: list_paginated_eq started_at_column int64_max_def export_filters_closed
        matching_def)
  then show ?thesis
    by (simp add: export_analytics_data_def Let_def)
qed

theorem export_limit_witness:
  "\<exists>out. export_analytics_data sample_others
       (replicate 10001
          (sample_execution ''u1'' ''a1'' ''m1'' (sample_now - timedelta_hours 1) Status_success 120 1))
       sample_now ''u1'' ''json'' ''7d'' None None = Inr out
     \<and> length (exported out) = 10000
     \<and> out = JsonExport 10001 (exported out)"
proof -
  have one: "closed_rows
      [sample_execution ''u1'' ''a1'' ''m1'' (sample_now - timedelta_hours 1) Status_success 120 1]
      (Some ''u1'') (fst (request_window sample_now ''7d'' None None))
      (snd (request_window sample_now ''7d'' None None))
    = [sample_execution ''u1'' ''a1'' ''m1'' (sample_now - timedelta_hours 1) Status_success 120 1]"
    by code_simp
  have json: "''json'' \<noteq> ''csv''" by simp
  show ?thesis
    using export_limit [of sample_others "replicate 10001
          (sample_execution ''u1'' ''a1'' ''m1'' (sample_now - timedelta_hours 1) Status_success 120 1)"
        sample_now "''u1''" "''json''" "''7d''" None None]
    unfolding closed_rows_replicate one
    by (simp add: json) blast
qed

subsection \<open>The budget check\<close>

lemma rolling_start_eq:
  "rolling_start now period =
     (if period_in_range now period then Inr (now - timedelta_days period)
      else Inl OverflowError)"
  by (simp add: rolling_start_def timedelta_of_days_def datetime_sub_def period_in_range_def)

lemma period_spend_owner:
  "scope alert \<noteq> Scope_agent \<or> \<not> truthy (scope_id alert) \<Longrightarrow>
     period_spend db now uid alert = owner_spend db now uid (period_days alert)"
  by (auto simp: period_spend_def truthy_def split: option.splits)

lemma period_spend_agent:
  "scope alert = Scope_agent \<Longrightarrow> scope_id alert = Some agent \<Longrightarrow> agent \<noteq> [] \<Longrightarrow>
     period_spend db now uid alert = agent_spend db now uid (period_days alert) agent"
  by (simp add: period_spend_def)

lemma alert_filters_spend:
  "cost_of (filter (alert_filters (now - timedelta_days (period_days alert)) uid alert) db)
     = period_spend db now uid alert"
proof (cases "scope alert = Scope_agent \<and> truthy (scope_id alert)")
  case True
  then obtain agent where agent: "scope_id alert = Some agent" "agent \<noteq> []"
    by (auto simp: truthy_def split: option.splits)
  have "filter (alert_filters (now - timedelta_days (period_days alert)) uid alert) db =
      filter (\<lambda>e. user_id e = Some uid \<and> now - timedelta_days (period_days alert) \<le> started_at e
        \<and> agent_id e = Some agent) db"
    by (rule filter_cong) (use True agent in \<open>auto simp: alert_filters_def\<close>)
  with True agent show ?thesis
    by (simp add: period_spend_agent agent_spend_def)
next
  case False
  have "filter (alert_filters (now - timedelta_days (period_days alert)) uid alert) db =
      filter (\<lambda>e. user_id e = Some uid \<and> now - timedelta_days (period_days alert) \<le> started_at e) db"
    by (rule filter_cong) (use False in \<open>auto simp: alert_filters_def\<close>)
  moreover from False have "scope alert \<noteq> Scope_agent \<or> \<not> truthy (scope_id alert)" by simp
  ultimately show ?thesis
    by (simp add: period_spend_owner owner_spend_def)
qed

lemma current_spend_eq:
  "current_spend db now uid alert =
     (if period_in_range now (period_days alert) then Inr (period_spend db now uid alert)
      else Inl OverflowError)"
  by (simp add: current_spend_def rolling_start_eq or0_sql_sum
      alert_filters_spend [unfolded cost_of_def])

lemma check_alerts_eq:
  "check_alerts db clock uid i alerts =
     (if periods_in_range clock i alerts
      then Inr (map (\<lambda>ia. (snd ia, period_spend db (clock (fst ia)) uid (snd ia)))
             (filter (\<lambda>ia. budget_reached (snd ia) (period_spend db (clock (fst ia)) uid (snd ia)))
                (enumerate i alerts)))
      else Inl OverflowError)"
  by (induction alerts arbitrary: i)
    (simp_all add: current_spend_eq py_truediv_def budget_reached_def)

lemma check_budget_exceeded_eq:
  "check_budget_exceeded alerts db clock uid =
     (if periods_in_range clock 0 (active_alerts alerts uid)
      then Inr (exceeded_alerts alerts db clock uid) else Inl OverflowError)"
  by (simp add: check_budget_exceeded_def check_alerts_eq get_active_by_user_def
      active_alerts_def exceeded_alerts_def)

lemma exceeded_alerts_mem:
  "(a, s) \<in> set (exceeded_alerts alerts db clock uid) \<longleftrightarrow>
     (\<exists>i < length (active_alerts alerts uid). a = active_alerts alerts uid ! i
        \<and> s = period_spend db (clock i) uid a
        \<and> s \<ge> threshold_usd a * of_int (alert_at_percentage a) / 100)"
  by (force simp: exceeded_alerts_def in_set_enumerate_eq budget_reached_def image_iff)

text \<open>
  C4. The check takes the active alerts of the user, one pass each, and recomputes for
  each the spend of the owner over its rolling period, the period ending when the pass
  reads the clock. When every rolling period is in range, the check returns, and it
  reports an alert with a spend if and only if the alert is an active alert of the user, the
  spend is the one recomputed in its pass, and the spend is at least
  \<open>threshold * alert_at_percentage / 100\<close>. With a threshold of 100 and a percentage of
  80, an alert with a spend of 79.99 is not reported with it and one with a spend of exactly
  80.00 is. When a period is out of range (more days than a \<^verbatim>\<open>timedelta\<close> holds, or
  a start before the first \<^verbatim>\<open>datetime\<close>) the check raises \<^verbatim>\<open>OverflowError\<close>.
\<close>

theorem budget_exceeded:
  fixes alerts db clock uid
  defines "active \<equiv> active_alerts alerts uid"
  shows "if periods_in_range clock 0 active
     then \<exists>exceeded. check_budget_exceeded alerts db clock uid = Inr exceeded
       \<and> exceeded = exceeded_alerts alerts db clock uid
       \<and> (\<forall>a s. (a, s) \<in> set exceeded \<longleftrightarrow>
            (\<exists>i < length active. a = active ! i
               \<and> s = period_spend db (clock i) uid a
               \<and> s \<ge> threshold_usd a * of_int (alert_at_percentage a) / 100))
       \<and> (\<forall>i < length active.
            threshold_usd (active ! i) = 100 \<and> alert_at_percentage (active ! i) = 80 \<longrightarrow>
              (period_spend db (clock i) uid (active ! i) = 7999 / 100 \<longrightarrow>
                 (active ! i, 7999 / 100) \<notin> set exceeded)
              \<and> (period_spend db (clock i) uid (active ! i) = 80 \<longrightarrow>
                   (active ! i, 80) \<in> set exceeded))
     else check_budget_exceeded alerts db clock uid = Inl OverflowError"
proof (cases "periods_in_range clock 0 active")
  case True
  define exceeded where "exceeded = exceeded_alerts alerts db clock uid"
  have eq: "check_budget_exceeded alerts db clock uid = Inr exceeded"
    using True by (simp add: check_budget_exceeded_eq active_def exceeded_def)
  have mem: "(a, s) \<in> set exceeded \<longleftrightarrow>
            (\<exists>i < length active. a = active ! i
               \<and> s = period_spend db (clock i) uid a
               \<and> s \<ge> threshold_usd a * of_int (alert_at_percentage a) / 100)" for a s
    unfolding exceeded_def active_def by (rule exceeded_alerts_mem)
  have ex: "(period_spend db (clock i) uid (active ! i) = 7999 / 100 \<longrightarrow>
                 (active ! i, 7999 / 100) \<notin> set exceeded)
              \<and> (period_spend db (clock i) uid (active ! i) = 80 \<longrightarrow>
                   (active ! i, 80) \<in> set exceeded)"
    if i: "i < length active" and t: "threshold_usd (active ! i) = 100"
      and pct: "alert_at_percentage (active ! i) = 80" for i
  proof (intro conjI impI)
    show "(active ! i, 7999 / 100) \<notin> set exceeded"
    proof
      assume "(active ! i, 7999 / 100) \<in> set exceeded"
      with mem [of "active ! i" "7999 / 100"]
      have "(7999 / 100 :: rat) \<ge>
          threshold_usd (active ! i) * of_int (alert_at_percentage (active ! i)) / 100"
        by blast
      with t pct show False by simp
    qed
  next
    assume "period_spend db (clock i) uid (active ! i) = 80"
    with i t pct have "\<exists>j < length active. active ! i = active ! j
        \<and> (80 :: rat) = period_spend db (clock j) uid (active ! i)
        \<and> (80 :: rat) \<ge> threshold_usd (active ! i) * of_int (alert_at_percentage (active ! i)) / 100"
      by (intro exI [of _ i]) simp
    with mem [of "active ! i" 80] show "(active ! i, 80) \<in> set exceeded" by blast
  qed
  have "\<exists>exceeded. check_budget_exceeded alerts db clock uid = Inr exceeded
       \<and> exceeded = exceeded_alerts alerts db clock uid
       \<and> (\<forall>a s. (a, s) \<in> set exceeded \<longleftrightarrow>
            (\<exists>i < length active. a = active ! i
               \<and> s = period_spend db (clock i) uid a
               \<and> s \<ge> threshold_usd a * of_int (alert_at_percentage a) / 100))
       \<and> (\<forall>i < length active.
            threshold_usd (active ! i) = 100 \<and> alert_at_percentage (active ! i) = 80 \<longrightarrow>
              (period_spend db (clock i) uid (active ! i) = 7999 / 100 \<longrightarrow>
                 (active ! i, 7999 / 100) \<notin> set exceeded)
              \<and> (period_spend db (clock i) uid (active ! i) = 80 \<longrightarrow>
                   (active ! i, 80) \<in> set exceeded))"
    using eq mem ex exceeded_def by blast
  with True show ?thesis by (simp only: if_True)
next
  case False
  then show ?thesis by (simp add: check_budget_exceeded_eq active_def)
qed

theorem budget_exceeded_witness:
  "check_budget_exceeded [sample_alert Scope_user None 100 80]
      [sample_execution ''u1'' ''a1'' ''m1'' sample_now Status_success 120 (7999 / 100)]
      sample_clock ''u1'' = Inr []
   \<and> check_budget_exceeded [sample_alert Scope_user None 100 80]
      [sample_execution ''u1'' ''a1'' ''m1'' sample_now Status_success 120 50,
       sample_execution ''u1'' ''a2'' ''m1'' sample_now Status_success 120 30,
       sample_execution ''u2'' ''a2'' ''m1'' sample_now Status_success 120 30,
       sample_execution ''u1'' ''a2'' ''m1'' (sample_now - timedelta_days 31) Status_success 120 30]
      sample_clock ''u1'' = Inr [(sample_alert Scope_user None 100 80, 80)]
   \<and> check_budget_exceeded [(sample_alert Scope_user None 100 80)\<lparr>period_days := 740000\<rparr>]
      sample_db sample_clock ''u1'' = Inl OverflowError"
proof -
  define alert where "alert = sample_alert Scope_user None 100 80"
  define low where
    "low = [sample_execution ''u1'' ''a1'' ''m1'' sample_now Status_success 120 (7999 / 100)]"
  define high where
    "high = [sample_execution ''u1'' ''a1'' ''m1'' sample_now Status_success 120 50,
       sample_execution ''u1'' ''a2'' ''m1'' sample_now Status_success 120 30,
       sample_execution ''u2'' ''a2'' ''m1'' sample_now Status_success 120 30,
       sample_execution ''u1'' ''a2'' ''m1'' (sample_now - timedelta_days 31) Status_success 120 30]"
  have r: "periods_in_range sample_clock 0 (active_alerts [alert] ''u1'')"
    and o: "\<not> periods_in_range sample_clock 0
        (active_alerts [alert\<lparr>period_days := 740000\<rparr>] ''u1'')"
    unfolding alert_def by code_simp+
  have e_low: "exceeded_alerts [alert] low sample_clock ''u1'' = []"
    and e_high: "exceeded_alerts [alert] high sample_clock ''u1'' = [(alert, 80)]"
    unfolding alert_def low_def high_def by code_simp+
  have r1: "check_budget_exceeded [alert] low sample_clock ''u1'' = Inr []"
    using budget_exceeded [of sample_clock "[alert]" "''u1''" low] r unfolding e_low
    by (simp only: if_True) blast
  have r2: "check_budget_exceeded [alert] high sample_clock ''u1'' = Inr [(alert, 80)]"
    using budget_exceeded [of sample_clock "[alert]" "''u1''" high] r unfolding e_high
    by (simp only: if_True) blast
  have r3: "check_budget_exceeded [alert\<lparr>period_days := 740000\<rparr>] sample_db sample_clock ''u1''
      = Inl OverflowError"
    using budget_exceeded [of sample_clock "[alert\<lparr>period_days := 740000\<rparr>]" "''u1''" sample_db] o
    by (simp only: if_False)
  from r1 r2 r3 show ?thesis unfolding alert_def low_def high_def by blast
qed

text \<open>
  C10. The budget check restricts the spend to an agent only for an alert whose scope is
  \<open>agent\<close> and whose \<open>scope_id\<close> is given (not null, and not the empty string, which
  Python takes for false). For every alert whose scope is flow, global or user, or whose
  \<open>scope_id\<close> is null, the spend is the total spend of the owner over the period, the
  spend of the same alert made an unscoped user-level alert; and that is the spend the
  check reports, computed at the time of the alert's pass. An alert whose period is out of
  range has no spend: the computation raises \<^verbatim>\<open>OverflowError\<close>.
\<close>

theorem budget_scope:
  fixes alerts db clock uid
  defines "active \<equiv> active_alerts alerts uid"
  shows "(if period_in_range now (period_days alert)
      then (scope alert \<noteq> Scope_agent \<or> \<not> truthy (scope_id alert) \<longrightarrow>
              current_spend db now uid alert = Inr (owner_spend db now uid (period_days alert)))
         \<and> (scope alert = Scope_agent \<and> scope_id alert = Some agent \<and> agent \<noteq> [] \<longrightarrow>
              current_spend db now uid alert
                = Inr (agent_spend db now uid (period_days alert) agent))
      else current_spend db now uid alert = Inl OverflowError)
   \<and> (scope alert \<noteq> Scope_agent \<or> \<not> truthy (scope_id alert) \<longrightarrow>
        current_spend db now uid alert =
          current_spend db now uid (alert\<lparr>scope := Scope_user, scope_id := None\<rparr>))
   \<and> (if periods_in_range clock 0 active
      then \<exists>exceeded. check_budget_exceeded alerts db clock uid = Inr exceeded
        \<and> (\<forall>(a, s) \<in> set exceeded.
              scope a \<noteq> Scope_agent \<or> \<not> truthy (scope_id a) \<longrightarrow>
              (\<exists>i < length active. a = active ! i
                 \<and> s = owner_spend db (clock i) uid (period_days a)))
      else check_budget_exceeded alerts db clock uid = Inl OverflowError)"
proof -
  have one: "if period_in_range now (period_days alert)
      then (scope alert \<noteq> Scope_agent \<or> \<not> truthy (scope_id alert) \<longrightarrow>
              current_spend db now uid alert = Inr (owner_spend db now uid (period_days alert)))
         \<and> (scope alert = Scope_agent \<and> scope_id alert = Some agent \<and> agent \<noteq> [] \<longrightarrow>
              current_spend db now uid alert
                = Inr (agent_spend db now uid (period_days alert) agent))
      else current_spend db now uid alert = Inl OverflowError"
    by (simp add: current_spend_eq period_spend_owner period_spend_agent)
  have two: "scope alert \<noteq> Scope_agent \<or> \<not> truthy (scope_id alert) \<longrightarrow>
        current_spend db now uid alert =
          current_spend db now uid (alert\<lparr>scope := Scope_user, scope_id := None\<rparr>)"
  proof
    assume c: "scope alert \<noteq> Scope_agent \<or> \<not> truthy (scope_id alert)"
    have "period_spend db now uid (alert\<lparr>scope := Scope_user, scope_id := None\<rparr>)
        = owner_spend db now uid (period_days alert)"
      by (simp add: period_spend_def)
    with period_spend_owner [OF c, of db now uid] show "current_spend db now uid alert =
          current_spend db now uid (alert\<lparr>scope := Scope_user, scope_id := None\<rparr>)"
      by (simp add: current_spend_eq)
  qed
  have three: "if periods_in_range clock 0 active
      then \<exists>exceeded. check_budget_exceeded alerts db clock uid = Inr exceeded
        \<and> (\<forall>(a, s) \<in> set exceeded.
              scope a \<noteq> Scope_agent \<or> \<not> truthy (scope_id a) \<longrightarrow>
              (\<exists>i < length active. a = active ! i
                 \<and> s = owner_spend db (clock i) uid (period_days a)))
      else check_budget_exceeded alerts db clock uid = Inl OverflowError"
  proof (cases "periods_in_range clock 0 active")
    case True
    have "\<exists>i < length active. a = active ! i
                 \<and> s = owner_spend db (clock i) uid (period_days a)"
      if "(a, s) \<in> set (exceeded_alerts alerts db clock uid)"
        and c: "scope a \<noteq> Scope_agent \<or> \<not> truthy (scope_id a)" for a s
    proof -
      from that(1) obtain i where "i < length active" "a = active ! i"
        "s = period_spend db (clock i) uid a"
        unfolding exceeded_alerts_mem active_def by blast
      with period_spend_owner [OF c, of db "clock i" uid] show ?thesis by auto
    qed
    with True show ?thesis
      by (auto simp: check_budget_exceeded_eq active_def)
  next
    case False
    then show ?thesis by (simp add: check_budget_exceeded_eq active_def)
  qed
  from one two three show ?thesis by (intro conjI) assumption+
qed

theorem budget_scope_witness:
  "current_spend sample_db sample_now ''u1'' (sample_alert Scope_flow (Some ''a2'') 5 80) = Inr 6
   \<and> current_spend sample_db sample_now ''u1'' (sample_alert Scope_global (Some ''a2'') 5 80) = Inr 6
   \<and> current_spend sample_db sample_now ''u1'' (sample_alert Scope_user (Some ''a2'') 5 80) = Inr 6
   \<and> current_spend sample_db sample_now ''u1'' (sample_alert Scope_agent None 5 80) = Inr 6
   \<and> current_spend sample_db sample_now ''u1'' (sample_alert Scope_agent (Some ''a2'') 5 80) = Inr 3
   \<and> current_spend sample_db sample_now ''u1''
       ((sample_alert Scope_flow (Some ''a2'') 5 80)\<lparr>period_days := 740000\<rparr>) = Inl OverflowError
   \<and> check_budget_exceeded [sample_alert Scope_flow (Some ''a2'') 5 80]
         sample_db sample_clock ''u1'' = Inr [(sample_alert Scope_flow (Some ''a2'') 5 80, 6)]"
proof -
  have own: "owner_spend sample_db sample_now ''u1'' 30 = 6"
    and ag: "agent_spend sample_db sample_now ''u1'' 30 ''a2'' = 3"
    by code_simp+
  have r: "period_in_range sample_now 30" and o: "\<not> period_in_range sample_now 740000"
    and rs: "periods_in_range sample_clock 0
      (active_alerts [sample_alert Scope_flow (Some ''a2'') 5 80] ''u1'')"
    by code_simp+
  have f: "scope (sample_alert sc sid 5 80) = sc" "scope_id (sample_alert sc sid 5 80) = sid"
    "period_days (sample_alert sc sid 5 80) = 30" for sc sid
    by (simp_all add: sample_alert_def)
  have flow: "current_spend sample_db sample_now ''u1'' (sample_alert Scope_flow (Some ''a2'') 5 80)
      = Inr 6"
    using budget_scope [where alert = "sample_alert Scope_flow (Some ''a2'') 5 80" and db = sample_db
          and now = sample_now and uid = "''u1''"] r
    by (simp add: f own)
  have glob: "current_spend sample_db sample_now ''u1'' (sample_alert Scope_global (Some ''a2'') 5 80)
      = Inr 6"
    using budget_scope [where alert = "sample_alert Scope_global (Some ''a2'') 5 80" and db = sample_db
          and now = sample_now and uid = "''u1''"] r
    by (simp add: f own)
  have usr: "current_spend sample_db sample_now ''u1'' (sample_alert Scope_user (Some ''a2'') 5 80)
      = Inr 6"
    using budget_scope [where alert = "sample_alert Scope_user (Some ''a2'') 5 80" and db = sample_db
          and now = sample_now and uid = "''u1''"] r
    by (simp add: f own)
  have nul: "current_spend sample_db sample_now ''u1'' (sample_alert Scope_agent None 5 80) = Inr 6"
    using budget_scope [where alert = "sample_alert Scope_agent None 5 80" and db = sample_db
          and now = sample_now and uid = "''u1''"] r
    by (simp add: f own truthy_def)
  have agt: "current_spend sample_db sample_now ''u1'' (sample_alert Scope_agent (Some ''a2'') 5 80)
      = Inr 3"
    using budget_scope [where alert = "sample_alert Scope_agent (Some ''a2'') 5 80"
          and agent = "''a2''" and db = sample_db and now = sample_now and uid = "''u1''"] r
    by (simp add: f ag)
  have out: "current_spend sample_db sample_now ''u1''
       ((sample_alert Scope_flow (Some ''a2'') 5 80)\<lparr>period_days := 740000\<rparr>) = Inl OverflowError"
    using budget_scope [where alert = "(sample_alert Scope_flow (Some ''a2'') 5 80)\<lparr>period_days := 740000\<rparr>"
          and db = sample_db and now = sample_now and uid = "''u1''"] o
    by simp
  have res: "projr (check_budget_exceeded [sample_alert Scope_flow (Some ''a2'') 5 80]
         sample_db sample_clock ''u1'') = [(sample_alert Scope_flow (Some ''a2'') 5 80, 6)]"
    by code_simp
  have "\<exists>exceeded. check_budget_exceeded [sample_alert Scope_flow (Some ''a2'') 5 80]
         sample_db sample_clock ''u1'' = Inr exceeded"
    using budget_scope [where alerts = "[sample_alert Scope_flow (Some ''a2'') 5 80]"
          and db = sample_db and clock = sample_clock and uid = "''u1''"
          and now = sample_now and alert = "sample_alert Scope_flow (Some ''a2'') 5 80"
          and agent = "''a2''"] rs
    by (simp only: if_True) blast
  with res have chk: "check_budget_exceeded [sample_alert Scope_flow (Some ''a2'') 5 80]
         sample_db sample_clock ''u1'' = Inr [(sample_alert Scope_flow (Some ''a2'') 5 80, 6)]"
    by auto
  from flow glob usr nul agt out chk show ?thesis by (intro conjI) assumption+
qed


end
